theory Spec2Isabelle
  imports Complex_Main "HOL-Library.Multiset"
begin

section \<open>JavaScript numbers\<close>

text \<open>
  A JavaScript \<^verbatim>\<open>number\<close> is an IEEE-754 double. The engine's behaviour depends on
  the three non-finite values (a division by zero yields an infinity or NaN, and
  \<^verbatim>\<open>Math.min\<close>, \<^verbatim>\<open><\<close> and truthiness treat NaN specially), so they are part of
  the model. Finite values are modelled as exact reals: rounding and overflow are not
  modelled, and \<^verbatim>\<open>Math.PI\<close> is \<open>pi\<close>. The value \<open>Fin 0\<close> is \<^verbatim>\<open>+0\<close>; a number that can
  be \<^verbatim>\<open>-0\<close> and is used as a divisor has the type \<open>znum\<close> below.
\<close>

datatype jsnum = Fin real | PInf | NInf | NaN

fun jneg :: "jsnum \<Rightarrow> jsnum" where
  "jneg (Fin a) = Fin (- a)"
| "jneg PInf = NInf"
| "jneg NInf = PInf"
| "jneg NaN = NaN"

fun jadd :: "jsnum \<Rightarrow> jsnum \<Rightarrow> jsnum" where
  "jadd (Fin a) (Fin b) = Fin (a + b)"
| "jadd NaN b = NaN"
| "jadd a NaN = NaN"
| "jadd PInf NInf = NaN"
| "jadd NInf PInf = NaN"
| "jadd PInf b = PInf"
| "jadd a PInf = PInf"
| "jadd NInf b = NInf"
| "jadd a NInf = NInf"

fun jsub :: "jsnum \<Rightarrow> jsnum \<Rightarrow> jsnum" where
  "jsub a b = jadd a (jneg b)"

fun jmul :: "jsnum \<Rightarrow> jsnum \<Rightarrow> jsnum" where
  "jmul (Fin a) (Fin b) = Fin (a * b)"
| "jmul NaN b = NaN"
| "jmul a NaN = NaN"
| "jmul (Fin a) PInf = (if a = 0 then NaN else if 0 < a then PInf else NInf)"
| "jmul (Fin a) NInf = (if a = 0 then NaN else if 0 < a then NInf else PInf)"
| "jmul PInf (Fin b) = (if b = 0 then NaN else if 0 < b then PInf else NInf)"
| "jmul NInf (Fin b) = (if b = 0 then NaN else if 0 < b then NInf else PInf)"
| "jmul PInf PInf = PInf"
| "jmul PInf NInf = NInf"
| "jmul NInf PInf = NInf"
| "jmul NInf NInf = PInf"

fun jdiv :: "jsnum \<Rightarrow> jsnum \<Rightarrow> jsnum" where
  "jdiv (Fin a) (Fin b) =
     (if b = 0 then (if a = 0 then NaN else if 0 < a then PInf else NInf)
      else Fin (a / b))"
| "jdiv NaN b = NaN"
| "jdiv a NaN = NaN"
| "jdiv (Fin a) PInf = Fin 0"
| "jdiv (Fin a) NInf = Fin 0"
| "jdiv PInf (Fin b) = (if 0 \<le> b then PInf else NInf)"
| "jdiv NInf (Fin b) = (if 0 \<le> b then NInf else PInf)"
| "jdiv PInf b = NaN"
| "jdiv NInf b = NaN"

fun jabs :: "jsnum \<Rightarrow> jsnum" where
  "jabs (Fin a) = Fin \<bar>a\<bar>"
| "jabs PInf = PInf"
| "jabs NInf = PInf"
| "jabs NaN = NaN"

text \<open>
  The two zeros of a double are equal, and the operations of the engine take them to
  results that differ at most in the sign of a zero, with one exception: as a divisor,
  \<^verbatim>\<open>x / +0\<close> and \<^verbatim>\<open>x / -0\<close> are infinities of opposite sign. The divisors of
  the engine are constants, the difference \<^verbatim>\<open>maxpoint - startingPoint\<close> (which is \<^verbatim>\<open>+0\<close>
  when it is zero), the start coordinate of a drag after it passed the truthiness guard,
  and \<^verbatim>\<open>duration / 1000\<close>, where the duration is whatever number the caller passes. A
  duration is therefore a \<open>znum\<close>, a number whose zero keeps its sign: \<open>Val (Fin 0)\<close> is
  \<^verbatim>\<open>+0\<close> and \<open>NegZero\<close> is \<^verbatim>\<open>-0\<close>.
\<close>

datatype znum = Val jsnum | NegZero

text \<open>\<^verbatim>\<open>d / 1000\<close>: a zero divided by the positive constant keeps its sign.\<close>

fun div1000 :: "znum \<Rightarrow> znum" where
  "div1000 (Val d) = Val (jdiv d (Fin 1000))"
| "div1000 NegZero = NegZero"

text \<open>\<^verbatim>\<open>a / b\<close> for a divisor with a signed zero: \<^verbatim>\<open>a / -0\<close> is \<^verbatim>\<open>-(a / +0)\<close>.\<close>

fun jdivz :: "jsnum \<Rightarrow> znum \<Rightarrow> jsnum" where
  "jdivz a (Val b) = jdiv a b"
| "jdivz a NegZero = jneg (jdiv a (Fin 0))"

text \<open>The comparison \<^verbatim>\<open>a < b\<close>: false whenever an operand is NaN.\<close>

fun jlt :: "jsnum \<Rightarrow> jsnum \<Rightarrow> bool" where
  "jlt (Fin a) (Fin b) = (a < b)"
| "jlt NaN b = False"
| "jlt a NaN = False"
| "jlt (Fin a) PInf = True"
| "jlt (Fin a) NInf = False"
| "jlt PInf b = False"
| "jlt NInf (Fin b) = True"
| "jlt NInf PInf = True"
| "jlt NInf NInf = False"

fun jgt :: "jsnum \<Rightarrow> jsnum \<Rightarrow> bool" where
  "jgt a b = jlt b a"

fun jle :: "jsnum \<Rightarrow> jsnum \<Rightarrow> bool" where
  "jle a b = (a \<noteq> NaN \<and> b \<noteq> NaN \<and> (a = b \<or> jlt a b))"

fun jge :: "jsnum \<Rightarrow> jsnum \<Rightarrow> bool" where
  "jge a b = jle b a"

text \<open>\<^verbatim>\<open>Math.min\<close> and \<^verbatim>\<open>Math.max\<close> return NaN when an argument is NaN.\<close>

fun jmin :: "jsnum \<Rightarrow> jsnum \<Rightarrow> jsnum" where
  "jmin NaN b = NaN"
| "jmin a NaN = NaN"
| "jmin a b = (if jlt a b then a else b)"

fun jmax :: "jsnum \<Rightarrow> jsnum \<Rightarrow> jsnum" where
  "jmax NaN b = NaN"
| "jmax a NaN = NaN"
| "jmax a b = (if jlt a b then b else a)"

fun jcos :: "jsnum \<Rightarrow> jsnum" where
  "jcos (Fin a) = Fin (cos a)"
| "jcos a = NaN"

fun jsin :: "jsnum \<Rightarrow> jsnum" where
  "jsin (Fin a) = Fin (sin a)"
| "jsin a = NaN"

text \<open>\<^verbatim>\<open>Math.pow(t, 3)\<close>; on every value it agrees with the product \<open>t * t * t\<close>.\<close>

fun jpow3 :: "jsnum \<Rightarrow> jsnum" where
  "jpow3 t = jmul (jmul t t) t"

text \<open>Truthiness of a number: \<^verbatim>\<open>0\<close> and NaN are falsy.\<close>

fun truthy :: "jsnum \<Rightarrow> bool" where
  "truthy (Fin a) = (a \<noteq> 0)"
| "truthy NaN = False"
| "truthy a = True"

text \<open>Truthiness of \<^verbatim>\<open>number | null\<close>: \<^verbatim>\<open>null\<close> is falsy as well.\<close>

fun truthy_opt :: "jsnum option \<Rightarrow> bool" where
  "truthy_opt None = False"
| "truthy_opt (Some a) = truthy a"

text \<open>\<^verbatim>\<open>v || 0\<close> replaces every falsy value, \<^verbatim>\<open>v ?? 0\<close> only \<^verbatim>\<open>null\<close>.\<close>

fun or_zero :: "jsnum option \<Rightarrow> jsnum" where
  "or_zero None = Fin 0"
| "or_zero (Some a) = (if truthy a then a else Fin 0)"

fun nullish_zero :: "jsnum option \<Rightarrow> jsnum" where
  "nullish_zero None = Fin 0"
| "nullish_zero (Some a) = a"

text \<open>
  \<^verbatim>\<open>v !== 0\<close> for a component read off a possibly missing vector: \<^verbatim>\<open>undefined\<close>
  (here \<open>None\<close>) differs from \<^verbatim>\<open>0\<close>, and so does NaN.
\<close>

fun not_zero :: "jsnum option \<Rightarrow> bool" where
  "not_zero None = True"
| "not_zero (Some (Fin a)) = (a \<noteq> 0)"
| "not_zero (Some a) = True"

section \<open>Vectors, rotation matrices and bounding boxes (three.js)\<close>

text \<open>
  The engine is written against three.js. The parts of the library that the rotation
  code calls are modelled from the library's documented behaviour:
  \<^verbatim>\<open>Vector3.add/sub/min/max\<close>, \<^verbatim>\<open>Matrix4.makeRotationAxis\<close>,
  \<^verbatim>\<open>Object3D.applyMatrix4\<close>, \<^verbatim>\<open>Box3.expandByObject\<close> and \<^verbatim>\<open>Box3.getCenter\<close>.
\<close>

record vec3 =
  vx :: jsnum
  vy :: jsnum
  vz :: jsnum

definition vec :: "jsnum \<Rightarrow> jsnum \<Rightarrow> jsnum \<Rightarrow> vec3" where
  "vec a b c = \<lparr>vx = a, vy = b, vz = c\<rparr>"

definition v_add :: "vec3 \<Rightarrow> vec3 \<Rightarrow> vec3" where
  "v_add a b = vec (jadd (vx a) (vx b)) (jadd (vy a) (vy b)) (jadd (vz a) (vz b))"

definition v_sub :: "vec3 \<Rightarrow> vec3 \<Rightarrow> vec3" where
  "v_sub a b = vec (jsub (vx a) (vx b)) (jsub (vy a) (vy b)) (jsub (vz a) (vz b))"

definition v_min :: "vec3 \<Rightarrow> vec3 \<Rightarrow> vec3" where
  "v_min a b = vec (jmin (vx a) (vx b)) (jmin (vy a) (vy b)) (jmin (vz a) (vz b))"

definition v_max :: "vec3 \<Rightarrow> vec3 \<Rightarrow> vec3" where
  "v_max a b = vec (jmax (vx a) (vx b)) (jmax (vy a) (vy b)) (jmax (vz a) (vz b))"

definition multiplyScalar :: "vec3 \<Rightarrow> jsnum \<Rightarrow> vec3" where
  "multiplyScalar a k = vec (jmul (vx a) k) (jmul (vy a) k) (jmul (vz a) k)"

datatype axis = X | Y | Z

text \<open>\<^verbatim>\<open>position[axis]\<close>\<close>

fun component :: "vec3 \<Rightarrow> axis \<Rightarrow> jsnum" where
  "component v X = vx v"
| "component v Y = vy v"
| "component v Z = vz v"

text \<open>\<^verbatim>\<open>const v = new THREE.Vector3(); v[axis] = 1\<close>\<close>

fun axisVector :: "axis \<Rightarrow> vec3" where
  "axisVector X = vec (Fin 1) (Fin 0) (Fin 0)"
| "axisVector Y = vec (Fin 0) (Fin 1) (Fin 0)"
| "axisVector Z = vec (Fin 0) (Fin 0) (Fin 1)"

text \<open>
  The upper-left 3x3 block of a \<^verbatim>\<open>Matrix4\<close>, row by row. The matrices built by the
  engine are rotations: their translation column is zero.
\<close>

record mat3 =
  m11 :: jsnum
  m12 :: jsnum
  m13 :: jsnum
  m21 :: jsnum
  m22 :: jsnum
  m23 :: jsnum
  m31 :: jsnum
  m32 :: jsnum
  m33 :: jsnum

definition identity3 :: mat3 where
  "identity3 =
     \<lparr>m11 = Fin 1, m12 = Fin 0, m13 = Fin 0,
      m21 = Fin 0, m22 = Fin 1, m23 = Fin 0,
      m31 = Fin 0, m32 = Fin 0, m33 = Fin 1\<rparr>"

text \<open>
  \<^verbatim>\<open>Matrix4.makeRotationAxis(axis, angle)\<close>, with the library's own formula:
  \<^verbatim>\<open>c = cos(angle), s = sin(angle), t = 1 - c, tx = t * x, ty = t * y\<close>.
\<close>

definition makeRotationAxis :: "vec3 \<Rightarrow> jsnum \<Rightarrow> mat3" where
  "makeRotationAxis a angle =
     (let c = jcos angle; s = jsin angle; t = jsub (Fin 1) c;
          x = vx a; y = vy a; z = vz a;
          tx = jmul t x; ty = jmul t y
      in \<lparr>m11 = jadd (jmul tx x) c,
          m12 = jsub (jmul tx y) (jmul s z),
          m13 = jadd (jmul tx z) (jmul s y),
          m21 = jadd (jmul tx y) (jmul s z),
          m22 = jadd (jmul ty y) c,
          m23 = jsub (jmul ty z) (jmul s x),
          m31 = jsub (jmul tx z) (jmul s y),
          m32 = jadd (jmul ty z) (jmul s x),
          m33 = jadd (jmul (jmul t z) z) c\<rparr>)"

definition mat_vec :: "mat3 \<Rightarrow> vec3 \<Rightarrow> vec3" where
  "mat_vec m v =
     vec (jadd (jadd (jmul (m11 m) (vx v)) (jmul (m12 m) (vy v))) (jmul (m13 m) (vz v)))
         (jadd (jadd (jmul (m21 m) (vx v)) (jmul (m22 m) (vy v))) (jmul (m23 m) (vz v)))
         (jadd (jadd (jmul (m31 m) (vx v)) (jmul (m32 m) (vy v))) (jmul (m33 m) (vz v)))"

definition col1 :: "mat3 \<Rightarrow> vec3" where
  "col1 m = vec (m11 m) (m21 m) (m31 m)"

definition col2 :: "mat3 \<Rightarrow> vec3" where
  "col2 m = vec (m12 m) (m22 m) (m32 m)"

definition col3 :: "mat3 \<Rightarrow> vec3" where
  "col3 m = vec (m13 m) (m23 m) (m33 m)"

definition mat_mul :: "mat3 \<Rightarrow> mat3 \<Rightarrow> mat3" where
  "mat_mul a b =
     (let c1 = mat_vec a (col1 b); c2 = mat_vec a (col2 b); c3 = mat_vec a (col3 b)
      in \<lparr>m11 = vx c1, m12 = vx c2, m13 = vx c3,
          m21 = vy c1, m22 = vy c2, m23 = vy c3,
          m31 = vz c1, m32 = vz c2, m33 = vz c3\<rparr>)"

text \<open>
  A child of the cube (a \<^verbatim>\<open>RubiksPiece\<close>, an \<^verbatim>\<open>Object3D\<close>): its position and its
  orientation. three.js keeps the orientation as a quaternion; the model keeps the
  rotation matrix that the quaternion stands for. The scale stays \<open>(1, 1, 1)\<close> under
  rotations and is left out. The parent (the \<^verbatim>\<open>RubiksCube\<close>) is never moved, so local
  and world coordinates coincide.
\<close>

record cube_unit =
  position :: vec3
  orientation :: mat3

text \<open>
  \<^verbatim>\<open>Object3D.applyMatrix4(m)\<close>: the local matrix is premultiplied by \<open>m\<close> and
  decomposed again into position and orientation.
\<close>

definition applyMatrix4 :: "mat3 \<Rightarrow> cube_unit \<Rightarrow> cube_unit" where
  "applyMatrix4 m u =
     \<lparr>position = mat_vec m (position u), orientation = mat_mul m (orientation u)\<rparr>"

record box3 =
  bmin :: vec3
  bmax :: vec3

text \<open>\<^verbatim>\<open>new THREE.Box3()\<close>: the empty box.\<close>

definition emptyBox :: box3 where
  "emptyBox = \<lparr>bmin = vec PInf PInf PInf, bmax = vec NInf NInf NInf\<rparr>"

definition isEmpty :: "box3 \<Rightarrow> bool" where
  "isEmpty b \<longleftrightarrow>
     jlt (vx (bmax b)) (vx (bmin b)) \<or> jlt (vy (bmax b)) (vy (bmin b)) \<or>
     jlt (vz (bmax b)) (vz (bmin b))"

definition expandByPoint :: "box3 \<Rightarrow> vec3 \<Rightarrow> box3" where
  "expandByPoint b p = \<lparr>bmin = v_min (bmin b) p, bmax = v_max (bmax b) p\<rparr>"

definition setFromPoints :: "vec3 list \<Rightarrow> box3" where
  "setFromPoints ps = foldl expandByPoint emptyBox ps"

definition box_union :: "box3 \<Rightarrow> box3 \<Rightarrow> box3" where
  "box_union a b = \<lparr>bmin = v_min (bmin a) (bmin b), bmax = v_max (bmax a) (bmax b)\<rparr>"

text \<open>The eight corners of a box, in the order \<^verbatim>\<open>Box3.applyMatrix4\<close> visits them.\<close>

definition corners :: "box3 \<Rightarrow> vec3 list" where
  "corners b =
     (let lo = bmin b; hi = bmax b in
      [vec (vx lo) (vy lo) (vz lo), vec (vx lo) (vy lo) (vz hi),
       vec (vx lo) (vy hi) (vz lo), vec (vx lo) (vy hi) (vz hi),
       vec (vx hi) (vy lo) (vz lo), vec (vx hi) (vy lo) (vz hi),
       vec (vx hi) (vy hi) (vz lo), vec (vx hi) (vy hi) (vz hi)])"

text \<open>A point of a unit's geometry, taken to world space by the unit's matrix.\<close>

definition toWorld :: "cube_unit \<Rightarrow> vec3 \<Rightarrow> vec3" where
  "toWorld u p = v_add (mat_vec (orientation u) p) (position u)"

text \<open>\<^verbatim>\<open>box.applyMatrix4(object.matrixWorld)\<close>\<close>

definition box_applyMatrix4 :: "box3 \<Rightarrow> cube_unit \<Rightarrow> box3" where
  "box_applyMatrix4 b u =
     (if isEmpty b then b else setFromPoints (map (toWorld u) (corners b)))"

text \<open>
  The bounding box of a piece's own geometry. The mesh is built by CSG from a box of
  side \<^verbatim>\<open>size\<close> (1 by default; the engine never passes another) centred at the
  piece's origin, with the six face fills staying inside it.
\<close>

definition pieceSize :: real where
  "pieceSize = 1"

definition geometryBox :: box3 where
  "geometryBox =
     \<lparr>bmin = vec (Fin (- pieceSize / 2)) (Fin (- pieceSize / 2)) (Fin (- pieceSize / 2)),
      bmax = vec (Fin (pieceSize / 2)) (Fin (pieceSize / 2)) (Fin (pieceSize / 2))\<rparr>"

text \<open>\<^verbatim>\<open>Box3.expandByObject\<close> (a piece has no children of its own).\<close>

definition expandByObject :: "box3 \<Rightarrow> cube_unit \<Rightarrow> box3" where
  "expandByObject b u = box_union b (box_applyMatrix4 geometryBox u)"

text \<open>\<^verbatim>\<open>Box3.getCenter\<close>: the origin for an empty box, the midpoint otherwise.\<close>

definition getCenter :: "box3 \<Rightarrow> vec3" where
  "getCenter b =
     (if isEmpty b then vec (Fin 0) (Fin 0) (Fin 0)
      else multiplyScalar (v_add (bmin b) (bmax b)) (Fin (1 / 2)))"

section \<open>The engine state\<close>

datatype layer_section = Sec0 | Sec1 | Sec2

datatype direction = Clockwise | Counterclockwise

datatype error =
  SameFaceAndAxis \<comment> \<open>``The selected face and rotation axis should not be the same''\<close>
| UnableToDetermineAngle \<comment> \<open>``Unable to determine angle''\<close>
| RotationAngleNotSet \<comment> \<open>``Rotation cannot be set without rotation angle being set''\<close>

text \<open>
  The completion callback of a layer animation. The only closure the engine ever
  passes is the one of \<^verbatim>\<open>shuffle\<close>, \<^verbatim>\<open>() => shuffleTurn(currentTurn + 1)\<close>; it is
  kept as data: the turn to run next and the captured \<^verbatim>\<open>turns\<close>.
\<close>

datatype callback = NoCallback | ShuffleNext nat nat

text \<open>
  A closure \<^verbatim>\<open>animate\<close> waiting in the \<^verbatim>\<open>requestAnimationFrame\<close> queue, with the
  variables it captured: axis, (section,) target angle, duration (and callback).
\<close>

datatype animation =
  CubeAnimation axis jsnum znum
| SectionAnimation axis layer_section jsnum znum callback

text \<open>A hit of the ray cast: \<^verbatim>\<open>THREE.Intersection\<close> with its optional \<^verbatim>\<open>normal\<close>.\<close>

record intersection =
  point :: vec3
  normal :: "vec3 option"

record mouse_event =
  clientX :: real
  clientY :: real

record window =
  innerWidth :: real
  innerHeight :: real

text \<open>
  The fields of \<^verbatim>\<open>RubiksCube\<close> that the rotation logic reads or writes. \<open>children\<close>
  are the 27 pieces (\<^verbatim>\<open>this.children\<close>); \<open>pending\<close> is the queue of callbacks
  registered with \<^verbatim>\<open>requestAnimationFrame\<close> and not yet run, oldest first. The
  evaluator, ray caster, camera and \<^verbatim>\<open>mouse\<close> vector only serve rendering and the ray
  cast, whose result is an input of \<open>onMouseDown\<close> here.
\<close>

record cube_state =
  children :: "cube_unit list"
  isDragging :: bool
  dragStartX :: "jsnum option"
  dragStartY :: "jsnum option"
  initialIntersect :: "intersection option"
  selectedFace :: "axis option"
  rotationAxis :: "axis option"
  rotationSection :: "layer_section option"
  rotationAngle :: "jsnum option"
  isRotating :: bool
  pending :: "animation list"

text \<open>
  \<^verbatim>\<open>initCube\<close>: the three nested loops over \<open>x, y, z \<in> {-1, 0, 1}\<close>, \<open>z\<close> innermost,
  each piece placed at \<open>(x * size, y * size, z * size)\<close>.
\<close>

definition initCube :: "cube_unit list" where
  "initCube =
     concat (map (\<lambda>a. concat (map (\<lambda>b. map (\<lambda>c.
        \<lparr>position = vec (Fin (a * pieceSize)) (Fin (b * pieceSize)) (Fin (c * pieceSize)),
         orientation = identity3\<rparr>) [-1, 0, 1]) [-1, 0, 1])) [-1, 0, 1])"

definition initialState :: cube_state where
  "initialState =
     \<lparr>children = initCube, isDragging = False, dragStartX = None, dragStartY = None,
      initialIntersect = None, selectedFace = None, rotationAxis = None,
      rotationSection = None, rotationAngle = None, isRotating = False, pending = []\<rparr>"

section \<open>Layer selection and rotation about a pivot\<close>

definition getSection :: "jsnum \<Rightarrow> layer_section" where
  "getSection p =
     (if jlt p (Fin (- (1 / 2))) then Sec0 else if jgt p (Fin (1 / 2)) then Sec2 else Sec1)"

fun isInSection :: "vec3 \<Rightarrow> axis \<Rightarrow> layer_section \<Rightarrow> bool" where
  "isInSection p a Sec0 = jlt (component p a) (Fin (- (1 / 2)))"
| "isInSection p a Sec1 =
     (jge (component p a) (Fin (- (1 / 2))) \<and> jle (component p a) (Fin (1 / 2)))"
| "isInSection p a Sec2 = jgt (component p a) (Fin (1 / 2))"

definition getSectionCubes :: "cube_state \<Rightarrow> axis \<Rightarrow> layer_section \<Rightarrow> cube_unit list" where
  "getSectionCubes s a sec = filter (\<lambda>child. isInSection (position child) a sec) (children s)"

definition calculateGroupCenter :: "cube_unit list \<Rightarrow> vec3" where
  "calculateGroupCenter cubes = getCenter (foldl expandByObject emptyBox cubes)"

text \<open>
  The body of the loop of \<^verbatim>\<open>rotateCubesAroundPivot\<close> for one cube: move the pivot to
  the origin, rotate, move back.
\<close>

definition rotateAroundPivot :: "vec3 \<Rightarrow> axis \<Rightarrow> jsnum \<Rightarrow> cube_unit \<Rightarrow> cube_unit" where
  "rotateAroundPivot pivot a angle cube =
     (let c1 = cube\<lparr>position := v_sub (position cube) pivot\<rparr>;
          c2 = applyMatrix4 (makeRotationAxis (axisVector a) angle) c1
      in c2\<lparr>position := v_add (position c2) pivot\<rparr>)"

definition rotateCubesAroundPivot ::
  "vec3 \<Rightarrow> cube_unit list \<Rightarrow> axis \<Rightarrow> jsnum \<Rightarrow> cube_unit list" where
  "rotateCubesAroundPivot pivot cubes a angle = map (rotateAroundPivot pivot a angle) cubes"

text \<open>
  \<^verbatim>\<open>applyRotation\<close>. The source collects references to the children of the section
  and mutates them in place; in the model every child of the section is replaced by
  its rotated copy, where it stands in \<open>children\<close>. The pivot object is added to the
  children after the selection and removed again by \<^verbatim>\<open>rotateCubesAroundPivot\<close>, so
  only its position (the centre) appears here.
\<close>

definition applyRotation :: "axis \<Rightarrow> layer_section \<Rightarrow> jsnum \<Rightarrow> cube_state \<Rightarrow> cube_state" where
  "applyRotation a sec angle s =
     (let cubes = getSectionCubes s a sec in
      if length cubes = 0 then s
      else
        let center = calculateGroupCenter cubes in
        s\<lparr>children :=
            map (\<lambda>child. if isInSection (position child) a sec
                          then rotateAroundPivot center a angle child else child)
                (children s)\<rparr>)"

text \<open>
  \<^verbatim>\<open>rotateEntireCube\<close>: the pivot is the centre of \<^verbatim>\<open>new Box3().setFromObject(this)\<close>,
  the box of all children. The pivot object itself is the last child while the loop
  runs (it is rotated about itself after all the pieces, then removed), so the pieces
  all turn about the centre.
\<close>

definition rotateEntireCube :: "axis \<Rightarrow> jsnum \<Rightarrow> cube_state \<Rightarrow> cube_state" where
  "rotateEntireCube a angle s =
     (let center = calculateGroupCenter (children s) in
      s\<lparr>children := rotateCubesAroundPivot center (children s) a angle\<rparr>)"

section \<open>Snapping and easing\<close>

text \<open>The loop of \<^verbatim>\<open>nearestClampDistance\<close> over \<^verbatim>\<open>clamps[1..]\<close>.\<close>

fun nearestLoop :: "jsnum \<Rightarrow> jsnum list \<Rightarrow> jsnum \<times> jsnum \<Rightarrow> jsnum \<times> jsnum" where
  "nearestLoop angle [] (nearest, minDistance) = (nearest, minDistance)"
| "nearestLoop angle (c # cs) (nearest, minDistance) =
     (let distance = jabs (jsub angle c) in
      if jlt distance minDistance then nearestLoop angle cs (c, distance)
      else nearestLoop angle cs (nearest, minDistance))"

text \<open>
  With an empty \<^verbatim>\<open>clamps\<close> the source reads \<^verbatim>\<open>clamps[0]\<close> as \<^verbatim>\<open>undefined\<close> and
  returns \<^verbatim>\<open>undefined - angle\<close>, which is NaN.
\<close>

definition nearestClampDistanceOf :: "jsnum \<Rightarrow> jsnum list \<Rightarrow> jsnum" where
  "nearestClampDistanceOf angle clamps =
     (case clamps of
        [] \<Rightarrow> NaN
      | c0 # cs \<Rightarrow> jsub (fst (nearestLoop angle cs (c0, jabs (jsub angle c0)))) angle)"

definition defaultClamps :: "jsnum list" where
  "defaultClamps = [jdiv (jneg (Fin pi)) (Fin 2), Fin 0, jdiv (Fin pi) (Fin 2)]"

definition nearestClampDistance :: "jsnum \<Rightarrow> jsnum" where
  "nearestClampDistance angle = nearestClampDistanceOf angle defaultClamps"

definition easeInOutCubic :: "jsnum \<Rightarrow> jsnum" where
  "easeInOutCubic t =
     (if jlt t (Fin (1 / 2)) then jmul (jmul (jmul (Fin 4) t) t) t
      else jsub (Fin 1) (jdiv (jpow3 (jadd (jmul (Fin (- 2)) t) (Fin 2))) (Fin 2)))"

section \<open>Drag interpretation\<close>

text \<open>
  \<^verbatim>\<open>onMouseDown\<close>. The ray cast against the bounding box belongs to the renderer; its
  result \<open>intersects\<close> is an input.
\<close>

definition onMouseDown :: "intersection list \<Rightarrow> mouse_event \<Rightarrow> cube_state \<Rightarrow> cube_state" where
  "onMouseDown intersects event s =
     (case intersects of
        [] \<Rightarrow> s
      | i # _ \<Rightarrow>
          s\<lparr>initialIntersect := Some i, isDragging := True,
            dragStartX := Some (Fin (clientX event)),
            dragStartY := Some (Fin (clientY event))\<rparr>)"

text \<open>
  \<^verbatim>\<open>getRotationAngle\<close>. The three locals start as \<^verbatim>\<open>null\<close>; the two \<^verbatim>\<open>if\<close>
  statements run one after the other; the guard \<^verbatim>\<open>!delta || !maxpoint || !startingPoint\<close>
  tests truthiness. A throw is the value \<open>Inl\<close>.
\<close>

definition getRotationAngle :: "window \<Rightarrow> cube_state \<Rightarrow> jsnum \<Rightarrow> jsnum \<Rightarrow> error + jsnum" where
  "getRotationAngle w s deltaX deltaY =
     (if selectedFace s = rotationAxis s then Inl SameFaceAndAxis
      else
        let isXAxis = (selectedFace s = Some X);
            isYAxis = (selectedFace s = Some Y);
            isZAxis = (selectedFace s = Some Z);
            hasXRotationAxis = (rotationAxis s = Some X);
            hasYRotationAxis = (rotationAxis s = Some Y);
            hasZRotationAxis = (rotationAxis s = Some Z);
            (maxpoint1, startingPoint1, delta1) =
              (if (isXAxis \<and> hasYRotationAxis) \<or> (isYAxis \<and> hasZRotationAxis) \<or>
                  (isZAxis \<and> hasYRotationAxis)
               then (Some (Fin (innerWidth w)), dragStartX s,
                     Some (if isYAxis then jneg deltaX else deltaX))
               else (None, None, None));
            (maxpoint, startingPoint, delta) =
              (if (isXAxis \<and> hasZRotationAxis) \<or> (isYAxis \<and> hasXRotationAxis) \<or>
                  (isZAxis \<and> hasXRotationAxis)
               then (Some (Fin (innerHeight w)), dragStartY s, Some deltaY)
               else (maxpoint1, startingPoint1, delta1))
        in
          if \<not> truthy_opt delta \<or> \<not> truthy_opt maxpoint \<or> \<not> truthy_opt startingPoint
          then Inl UnableToDetermineAngle
          else
            let d = the delta; mp = the maxpoint; sp = the startingPoint;
                maxDelta = (if jgt d (Fin 0) then jsub mp sp else sp);
                angle = jdiv (jmul (jdiv d maxDelta) (Fin pi)) (Fin 2)
            in Inr (jmin (jmax angle (jdiv (jneg (Fin pi)) (Fin 2))) (jdiv (Fin pi) (Fin 2))))"

text \<open>
  \<^verbatim>\<open>setRotation\<close>. A throw is \<open>Inl (e, s')\<close>: the error and the state the engine is
  left in.
\<close>

definition setRotation ::
  "window \<Rightarrow> axis \<Rightarrow> layer_section \<Rightarrow> jsnum \<Rightarrow> jsnum \<Rightarrow> cube_state
     \<Rightarrow> (error \<times> cube_state) + cube_state" where
  "setRotation w a sec deltaX deltaY s =
     (case rotationAngle s of
        None \<Rightarrow> Inl (RotationAngleNotSet, s)
      | Some current \<Rightarrow>
          (case getRotationAngle w s deltaX deltaY of
             Inl e \<Rightarrow> Inl (e, s)
           | Inr angle \<Rightarrow>
               let remainingRotation = jsub angle current in
               Inr ((applyRotation a sec remainingRotation s)\<lparr>rotationAngle := Some angle\<rparr>)))"

text \<open>The three \<^verbatim>\<open>if\<close> statements of \<^verbatim>\<open>onMouseMove\<close> that pick the axis and the face.\<close>

definition resolveAxis :: "vec3 option \<Rightarrow> jsnum \<Rightarrow> jsnum \<Rightarrow> cube_state \<Rightarrow> cube_state" where
  "resolveAxis n deltaX deltaY s =
     (let horizontal = jgt (jabs deltaX) (jabs deltaY);
          s1 = (if not_zero (map_option vx n)
                then s\<lparr>rotationAxis := Some (if horizontal then Y else Z),
                       selectedFace := Some X\<rparr>
                else s);
          s2 = (if not_zero (map_option vy n)
                then s1\<lparr>rotationAxis := Some (if horizontal then Z else X),
                        selectedFace := Some Y\<rparr>
                else s1)
      in if not_zero (map_option vz n)
         then s2\<lparr>rotationAxis := Some (if horizontal then Y else X),
                 selectedFace := Some Z\<rparr>
         else s2)"

definition onMouseMove ::
  "window \<Rightarrow> mouse_event \<Rightarrow> cube_state \<Rightarrow> (error \<times> cube_state) + cube_state" where
  "onMouseMove w event s =
     (case (isDragging s, initialIntersect s, dragStartX s, dragStartY s) of
        (True, Some hit, Some startX, Some startY) \<Rightarrow>
          let deltaX = jsub (Fin (clientX event)) startX;
              deltaY = jsub (Fin (clientY event)) startY
          in
            if jlt (jabs deltaX) (Fin 10) \<or> jlt (jabs deltaY) (Fin 10) then Inr s
            else
              (case (rotationAxis s, rotationSection s, rotationAngle s) of
                 (Some a, Some sec, Some _) \<Rightarrow> setRotation w a sec deltaX deltaY s
               | _ \<Rightarrow>
                   let s1 = resolveAxis (normal hit) deltaX deltaY
                              (s\<lparr>rotationAngle := Some (Fin 0)\<rparr>)
                   in Inr (case rotationAxis s1 of
                             None \<Rightarrow> s1
                           | Some a \<Rightarrow>
                               s1\<lparr>rotationSection :=
                                    Some (getSection (component (point hit) a))\<rparr>))
      | _ \<Rightarrow> Inr s)"


section \<open>Animated rotations\<close>

definition targetAngleOf :: "direction \<Rightarrow> jsnum" where
  "targetAngleOf d =
     (case d of Clockwise \<Rightarrow> jdiv (Fin pi) (Fin 2)
              | Counterclockwise \<Rightarrow> jdiv (jneg (Fin pi)) (Fin 2))"

text \<open>
  \<^verbatim>\<open>animateCubeRotation\<close> and \<^verbatim>\<open>animateSectionRotation\<close> create a clock, read its
  start time (0) and register the closure \<^verbatim>\<open>animate\<close> for the next frame.
\<close>

definition animateCubeRotation :: "axis \<Rightarrow> jsnum \<Rightarrow> znum \<Rightarrow> cube_state \<Rightarrow> cube_state" where
  "animateCubeRotation a targetAngle duration s =
     s\<lparr>pending := pending s @ [CubeAnimation a targetAngle duration]\<rparr>"

definition rotateCube :: "axis \<Rightarrow> direction \<Rightarrow> znum \<Rightarrow> cube_state \<Rightarrow> cube_state" where
  "rotateCube a d duration s =
     (if isRotating s then s
      else animateCubeRotation a (targetAngleOf d) duration (s\<lparr>isRotating := True\<rparr>))"

definition animateSectionRotation ::
  "axis \<Rightarrow> layer_section \<Rightarrow> jsnum \<Rightarrow> znum \<Rightarrow> callback \<Rightarrow> cube_state \<Rightarrow> cube_state" where
  "animateSectionRotation a sec targetAngle duration cb s =
     s\<lparr>pending := pending s @ [SectionAnimation a sec targetAngle duration cb]\<rparr>"

definition rotate' ::
  "axis \<Rightarrow> layer_section \<Rightarrow> direction \<Rightarrow> znum \<Rightarrow> callback \<Rightarrow> cube_state \<Rightarrow> cube_state" where
  "rotate' a sec d duration cb s = animateSectionRotation a sec (targetAngleOf d) duration cb s"

text \<open>\<^verbatim>\<open>onKeyboardRotation\<close>: the keys that turn the whole cube, with the default duration.\<close>

definition onKeyboardRotation :: "string \<Rightarrow> cube_state \<Rightarrow> cube_state" where
  "onKeyboardRotation key s =
     (if key \<in> {''ArrowUp'', ''w'', ''W''} then rotateCube X Clockwise (Val (Fin 500)) s
      else if key \<in> {''ArrowDown'', ''s'', ''S''} then rotateCube X Counterclockwise (Val (Fin 500)) s
      else if key \<in> {''ArrowLeft'', ''a'', ''A''} then rotateCube Y Clockwise (Val (Fin 500)) s
      else if key \<in> {''ArrowRight'', ''d'', ''D''} then rotateCube Y Counterclockwise (Val (Fin 500)) s
      else s)"

text \<open>
  \<^verbatim>\<open>Math.min(elapsedTime / (duration / 1000), 1)\<close>. The elapsed time is read off the
  animation's clock, in seconds since the animation was created.
\<close>

definition progressOf :: "real \<Rightarrow> znum \<Rightarrow> jsnum" where
  "progressOf elapsedTime duration =
     jmin (jdivz (Fin elapsedTime) (div1000 duration)) (Fin 1)"

text \<open>
  The three values of \<^verbatim>\<open>Math.random()\<close> that one turn of \<^verbatim>\<open>shuffle\<close> draws, each in
  \<open>[0, 1)\<close>, and the element that \<^verbatim>\<open>list[Math.floor(r * list.length)]\<close> picks.
\<close>

type_synonym draws = "real \<times> real \<times> real"

definition pickAxis :: "real \<Rightarrow> axis" where
  "pickAxis r = (if \<lfloor>r * 3\<rfloor> = 0 then X else if \<lfloor>r * 3\<rfloor> = 1 then Y else Z)"

definition pickSection :: "real \<Rightarrow> layer_section" where
  "pickSection r = (if \<lfloor>r * 3\<rfloor> = 0 then Sec0 else if \<lfloor>r * 3\<rfloor> = 1 then Sec1 else Sec2)"

definition pickDirection :: "real \<Rightarrow> direction" where
  "pickDirection r = (if \<lfloor>r * 2\<rfloor> = 0 then Clockwise else Counterclockwise)"

definition shuffleTurn :: "nat \<Rightarrow> nat \<Rightarrow> draws \<Rightarrow> cube_state \<Rightarrow> cube_state" where
  "shuffleTurn currentTurn turns rnd s =
     (if currentTurn < turns
      then (case rnd of (r1, r2, r3) \<Rightarrow>
              rotate' (pickAxis r1) (pickSection r2) (pickDirection r3) (Val (Fin 500))
                (ShuffleNext (currentTurn + 1) turns) s)
      else s)"

definition shuffle :: "nat \<Rightarrow> draws \<Rightarrow> cube_state \<Rightarrow> cube_state" where
  "shuffle turns rnd s = shuffleTurn 0 turns rnd s"

text \<open>\<^verbatim>\<open>callback && callback()\<close>\<close>

fun runCallback :: "callback \<Rightarrow> draws \<Rightarrow> cube_state \<Rightarrow> cube_state" where
  "runCallback NoCallback rnd s = s"
| "runCallback (ShuffleNext turn turns) rnd s = shuffleTurn turn turns rnd s"

text \<open>
  One run of a closure \<^verbatim>\<open>animate\<close>, at clock reading \<open>elapsedTime\<close>. When the progress
  is below 1 the closure registers itself again.
\<close>

fun animate :: "animation \<Rightarrow> real \<Rightarrow> draws \<Rightarrow> cube_state \<Rightarrow> cube_state" where
  "animate (CubeAnimation a targetAngle duration) elapsedTime rnd s =
     (let progress = progressOf elapsedTime duration;
          easedProgress = easeInOutCubic progress;
          currentAngle = jmul targetAngle easedProgress;
          s1 = rotateEntireCube a (jsub currentAngle (or_zero (rotationAngle s))) s;
          s2 = s1\<lparr>rotationAngle := Some currentAngle\<rparr>
      in if jlt progress (Fin 1)
         then s2\<lparr>pending := pending s2 @ [CubeAnimation a targetAngle duration]\<rparr>
         else s2\<lparr>isRotating := False, rotationAngle := None\<rparr>)"
| "animate (SectionAnimation a sec targetAngle duration cb) elapsedTime rnd s =
     (let initialAngle = Fin 0;
          progress = progressOf elapsedTime duration;
          easedProgress = easeInOutCubic progress;
          currentAngle = jadd initialAngle (jmul targetAngle easedProgress);
          s1 = applyRotation a sec (jsub currentAngle (nullish_zero (rotationAngle s))) s;
          s2 = s1\<lparr>rotationAngle := Some currentAngle\<rparr>
      in if jlt progress (Fin 1)
         then s2\<lparr>pending := pending s2 @ [SectionAnimation a sec targetAngle duration cb]\<rparr>
         else runCallback cb rnd (s2\<lparr>isRotating := False, rotationAngle := None\<rparr>))"

text \<open>
  The browser runs the oldest registered animation callback: it leaves the queue and
  runs at the clock reading \<open>elapsedTime\<close> of its own clock.
\<close>

definition tick :: "real \<Rightarrow> draws \<Rightarrow> cube_state \<Rightarrow> cube_state" where
  "tick elapsedTime rnd s =
     (case pending s of
        [] \<Rightarrow> s
      | anim # rest \<Rightarrow> animate anim elapsedTime rnd (s\<lparr>pending := rest\<rparr>))"

section \<open>Notions used to state the properties\<close>

text \<open>
  The 27 coordinates of the 3x3x3 grid, and the states whose pieces occupy them, one
  piece per coordinate (in any order).
\<close>

definition gridPoints :: "vec3 list" where
  "gridPoints =
     concat (map (\<lambda>a. concat (map (\<lambda>b. map (\<lambda>c. vec (Fin a) (Fin b) (Fin c))
       [-1, 0, 1]) [-1, 0, 1])) [-1, 0, 1])"

definition onGrid :: "cube_unit list \<Rightarrow> bool" where
  "onGrid cubes \<longleftrightarrow> mset (map position cubes) = mset gridPoints"

text \<open>
  The specification's reading of the snap target: the first listed clamp whose
  distance to the angle is minimal.
\<close>

definition nearestIn :: "real \<Rightarrow> real list \<Rightarrow> real option" where
  "nearestIn a cs = find (\<lambda>c. list_all (\<lambda>c'. \<bar>a - c\<bar> \<le> \<bar>a - c'\<bar>) cs) cs"

text \<open>
  The specification's table of the drag: the rotation axis for a grabbed face and a
  movement that is dominantly horizontal or not; and the normal of a face of the
  bounding box, with \<open>k\<close> at the face's coordinate.
\<close>

definition dragAxis :: "axis \<Rightarrow> bool \<Rightarrow> axis" where
  "dragAxis face horizontal =
     (case face of
        X \<Rightarrow> if horizontal then Y else Z
      | Y \<Rightarrow> if horizontal then Z else X
      | Z \<Rightarrow> if horizontal then Y else X)"

definition faceNormal :: "axis \<Rightarrow> real \<Rightarrow> vec3" where
  "faceNormal face k =
     (case face of
        X \<Rightarrow> vec (Fin k) (Fin 0) (Fin 0)
      | Y \<Rightarrow> vec (Fin 0) (Fin k) (Fin 0)
      | Z \<Rightarrow> vec (Fin 0) (Fin 0) (Fin k))"

fun isCubeAnimation :: "animation \<Rightarrow> bool" where
  "isCubeAnimation (CubeAnimation a t d) = True"
| "isCubeAnimation (SectionAnimation a sec t d cb) = False"

section \<open>Notions used to state and prove the grid invariant\<close>
























definition afterMove :: "window \<Rightarrow> mouse_event \<Rightarrow> cube_state \<Rightarrow> cube_state" where
  "afterMove w event s = (case onMouseMove w event s of Inl (e, s') \<Rightarrow> s' | Inr s' \<Rightarrow> s')"

fun dragMoves :: "(window \<times> mouse_event) list \<Rightarrow> cube_state \<Rightarrow> cube_state" where
  "dragMoves [] s = s"
| "dragMoves ((w, event) # ms) s = dragMoves ms (afterMove w event s)"

definition idle :: "cube_state \<Rightarrow> bool" where
  "idle s \<longleftrightarrow> \<not> isDragging s \<and> rotationAxis s = None \<and> rotationSection s = None \<and>
            rotationAngle s = None"


text \<open>
  A quarter turn about the \<open>y\<close> axis through the origin, as the end-to-end scenario
  expects it of a piece that started unrotated: \<open>(x, y, z)\<close> goes to \<open>(z, y, -x)\<close>.
\<close>

definition quarterTurnY :: "cube_unit \<Rightarrow> cube_unit" where
  "quarterTurnY u =
     \<lparr>position = vec (vz (position u)) (vy (position u)) (jneg (vx (position u))),
      orientation = \<lparr>m11 = Fin 0, m12 = Fin 0, m13 = Fin 1,
                     m21 = Fin 0, m22 = Fin 1, m23 = Fin 0,
                     m31 = Fin (- 1), m32 = Fin 0, m33 = Fin 0\<rparr>\<rparr>"

text \<open>
  A resolved drag session: the pointer went down at \<open>(x0, y0)\<close> on the face \<open>face\<close> of
  the bounding box, and a move has resolved the axis that belongs to the face and to a
  movement that was dominantly horizontal or not. \<open>startMissing\<close> holds when the start
  coordinate that such a session measures its angle from, or the window extent it
  measures it against, is 0.
\<close>

definition resolvedSession :: "axis \<Rightarrow> bool \<Rightarrow> real \<Rightarrow> real \<Rightarrow> cube_state \<Rightarrow> bool" where
  "resolvedSession face horizontal x0 y0 s \<longleftrightarrow>
     isDragging s \<and> initialIntersect s \<noteq> None \<and>
     dragStartX s = Some (Fin x0) \<and> dragStartY s = Some (Fin y0) \<and>
     selectedFace s = Some face \<and> rotationAxis s = Some (dragAxis face horizontal) \<and>
     rotationSection s \<noteq> None \<and> rotationAngle s \<noteq> None"

definition startMissing :: "bool \<Rightarrow> real \<Rightarrow> real \<Rightarrow> window \<Rightarrow> bool" where
  "startMissing horizontal x0 y0 w \<longleftrightarrow>
     (if horizontal then x0 = 0 \<or> innerWidth w = 0 else y0 = 0 \<or> innerHeight w = 0)"

section \<open>What a rotation leaves alone\<close>

lemma applyRotation_fields [simp]:
  "isDragging (applyRotation a sec angle s) = isDragging s"
  "dragStartX (applyRotation a sec angle s) = dragStartX s"
  "dragStartY (applyRotation a sec angle s) = dragStartY s"
  "initialIntersect (applyRotation a sec angle s) = initialIntersect s"
  "selectedFace (applyRotation a sec angle s) = selectedFace s"
  "rotationAxis (applyRotation a sec angle s) = rotationAxis s"
  "rotationSection (applyRotation a sec angle s) = rotationSection s"
  "rotationAngle (applyRotation a sec angle s) = rotationAngle s"
  "isRotating (applyRotation a sec angle s) = isRotating s"
  "pending (applyRotation a sec angle s) = pending s"
  by (simp_all add: applyRotation_def Let_def)

lemma rotateEntireCube_fields [simp]:
  "rotationAngle (rotateEntireCube a angle s) = rotationAngle s"
  "isRotating (rotateEntireCube a angle s) = isRotating s"
  "pending (rotateEntireCube a angle s) = pending s"
  by (simp_all add: rotateEntireCube_def Let_def)

lemma runCallback_fields [simp]:
  "isRotating (runCallback cb rnd s) = isRotating s"
  "rotationAngle (runCallback cb rnd s) = rotationAngle s"
  "children (runCallback cb rnd s) = children s"
  by (cases cb; cases rnd; simp add: shuffleTurn_def rotate'_def animateSectionRotation_def)+


section \<open>Bounds and boundary values\<close>

lemma pi_half_bounds: "1 \<le> pi / 2" "pi / 2 < 2"
  using pi_ge_two pi_less_4 by simp_all

lemma progress_zero_duration: "0 < e \<Longrightarrow> progressOf e (Val (Fin 0)) = Fin 1"
  by (simp add: progressOf_def)


lemma easeInOutCubic_one: "easeInOutCubic (Fin 1) = Fin 1"
  by (simp add: easeInOutCubic_def)

text \<open>
  A zero-duration layer rotation whose first frame reads the elapsed time 0: the frame
  rotates the layer by NaN and completes.
\<close>

lemma zero_elapsed_tick:
  "tick 0 rnd (rotate' Y Sec1 Clockwise (Val (Fin 0)) NoCallback initialState) =
     initialState\<lparr>children :=
       map (\<lambda>u. if vy (position u) = Fin 0
                 then \<lparr>position = vec NaN NaN NaN,
                       orientation = \<lparr>m11 = NaN, m12 = NaN, m13 = NaN,
                                      m21 = NaN, m22 = NaN, m23 = NaN,
                                      m31 = NaN, m32 = NaN, m33 = NaN\<rparr>\<rparr>
                 else u) initCube\<rparr>"
  by (simp add: progressOf_def easeInOutCubic_def targetAngleOf_def tick_def rotate'_def
        animateSectionRotation_def initialState_def Let_def applyRotation_def
        getSectionCubes_def initCube_def pieceSize_def vec_def calculateGroupCenter_def
        rotateAroundPivot_def applyMatrix4_def makeRotationAxis_def mat_vec_def mat_mul_def
        col1_def col2_def col3_def v_add_def v_sub_def identity3_def getCenter_def
        expandByObject_def box_union_def box_applyMatrix4_def geometryBox_def emptyBox_def
        isEmpty_def setFromPoints_def expandByPoint_def corners_def toWorld_def v_min_def
        v_max_def multiplyScalar_def)

text \<open>The same rotation when the first frame reads a positive elapsed time.\<close>

lemma quarter_turn_initial:
  "applyRotation Y Sec1 (Fin (pi / 2)) initialState =
     initialState\<lparr>children :=
       map (\<lambda>u. if isInSection (position u) Y Sec1 then quarterTurnY u else u) initCube\<rparr>"
  by (simp add: initialState_def initCube_def quarterTurnY_def Let_def applyRotation_def
        getSectionCubes_def calculateGroupCenter_def rotateAroundPivot_def applyMatrix4_def
        makeRotationAxis_def mat_vec_def mat_mul_def col1_def col2_def col3_def v_add_def
        v_sub_def identity3_def getCenter_def expandByObject_def box_union_def
        box_applyMatrix4_def geometryBox_def emptyBox_def isEmpty_def setFromPoints_def
        expandByPoint_def corners_def toWorld_def v_min_def v_max_def multiplyScalar_def
        vec_def pieceSize_def)

section \<open>The grid\<close>

lemma length_filter_position:
  "length (filter (\<lambda>u. P (position u)) us) = size (filter_mset P (mset (map position us)))"
  by (induction us) auto

lemma gridPoints_count:
  "size (filter_mset (\<lambda>p. isInSection p a sec) (mset gridPoints)) = 9"
  by (cases a; cases sec; simp add: gridPoints_def vec_def)

lemma section_count:
  assumes "onGrid (children s)"
  shows "length (getSectionCubes s a sec) = 9"
proof -
  have "length (getSectionCubes s a sec) =
          size (filter_mset (\<lambda>p. isInSection p a sec) (mset (map position (children s))))"
    unfolding getSectionCubes_def by (rule length_filter_position)
  also have "\<dots> = size (filter_mset (\<lambda>p. isInSection p a sec) (mset gridPoints))"
    using assms unfolding onGrid_def by (rule arg_cong)
  finally show ?thesis by (simp only: gridPoints_count)
qed

lemma grid_components:
  "list_all (\<lambda>p. component p a = Fin (- 1) \<or> component p a = Fin 0 \<or> component p a = Fin 1)
     gridPoints"
  by (cases a; simp add: gridPoints_def vec_def)

lemma grid_trichotomy:
  assumes "p \<in> set gridPoints"
  shows "(isInSection p a Sec0 \<and> \<not> isInSection p a Sec1 \<and> \<not> isInSection p a Sec2) \<or>
         (\<not> isInSection p a Sec0 \<and> isInSection p a Sec1 \<and> \<not> isInSection p a Sec2) \<or>
         (\<not> isInSection p a Sec0 \<and> \<not> isInSection p a Sec1 \<and> isInSection p a Sec2)"
proof -
  from assms grid_components [of a]
  have "component p a = Fin (- 1) \<or> component p a = Fin 0 \<or> component p a = Fin 1"
    by (simp only: list_all_iff)
  then show ?thesis by (elim disjE) simp_all
qed

lemma sections_exclusive:
  "\<not> (isInSection p a Sec0 \<and> isInSection p a Sec1) \<and>
   \<not> (isInSection p a Sec0 \<and> isInSection p a Sec2) \<and>
   \<not> (isInSection p a Sec1 \<and> isInSection p a Sec2)"
  by (cases "component p a"; simp; arith)

lemma mset_three_filters:
  assumes "\<forall>u \<in> set us. (P u \<and> \<not> Q u \<and> \<not> R u) \<or> (\<not> P u \<and> Q u \<and> \<not> R u) \<or>
                          (\<not> P u \<and> \<not> Q u \<and> R u)"
  shows "mset (filter P us) + mset (filter Q us) + mset (filter R us) = mset us"
  using assms by (induction us) auto

lemma onGrid_position: "onGrid us \<Longrightarrow> u \<in> set us \<Longrightarrow> position u \<in> set gridPoints"
proof -
  assume g: "onGrid us" and u: "u \<in> set us"
  from u have "position u \<in> set (map position us)" by simp
  then have "position u \<in># mset (map position us)" by (simp only: set_mset_mset)
  with g have "position u \<in># mset gridPoints" by (simp only: onGrid_def)
  then show ?thesis by (simp only: set_mset_mset)
qed

lemma distinct_gridPoints: "distinct gridPoints"
  by (simp add: gridPoints_def vec_def)

lemma onGrid_distinct: "onGrid us \<Longrightarrow> distinct us"
proof -
  assume "onGrid us"
  then have "mset (map position us) = mset gridPoints" by (simp only: onGrid_def)
  then have "distinct (map position us) \<longleftrightarrow> distinct gridPoints"
    by (rule mset_eq_imp_distinct_iff)
  then have "distinct (map position us)" by (simp only: distinct_gridPoints)
  then show ?thesis by (simp only: distinct_map)
qed

lemma onGrid_length: "onGrid us \<Longrightarrow> length us = 27"
proof -
  assume "onGrid us"
  then have "size (mset (map position us)) = size (mset gridPoints)"
    by (simp add: onGrid_def)
  then show ?thesis by (simp add: gridPoints_def)
qed

lemma initCube_onGrid: "onGrid initCube"
  by (simp add: onGrid_def initCube_def gridPoints_def pieceSize_def vec_def)

section \<open>Layer selection\<close>

text \<open>
  Claim C2. In a state whose 27 pieces stand on the grid, one per coordinate,
  \<open>getSectionCubes\<close> returns exactly 9 pieces for every axis and section; for a fixed
  axis the three sections are pairwise disjoint and together they are all 27 pieces,
  none twice.
\<close>

theorem getSectionCubes_partition:
  assumes "onGrid (children s)"
  shows "length (getSectionCubes s a sec) = 9 \<and>
         mset (getSectionCubes s a Sec0) + mset (getSectionCubes s a Sec1) +
           mset (getSectionCubes s a Sec2) = mset (children s) \<and>
         set (getSectionCubes s a Sec0) \<inter> set (getSectionCubes s a Sec1) = {} \<and>
         set (getSectionCubes s a Sec0) \<inter> set (getSectionCubes s a Sec2) = {} \<and>
         set (getSectionCubes s a Sec1) \<inter> set (getSectionCubes s a Sec2) = {} \<and>
         set (getSectionCubes s a Sec0) \<union> set (getSectionCubes s a Sec1) \<union>
           set (getSectionCubes s a Sec2) = set (children s) \<and>
         distinct (children s) \<and> length (children s) = 27"
proof -
  have tri: "\<forall>u \<in> set (children s).
      (isInSection (position u) a Sec0 \<and> \<not> isInSection (position u) a Sec1 \<and>
         \<not> isInSection (position u) a Sec2) \<or>
      (\<not> isInSection (position u) a Sec0 \<and> isInSection (position u) a Sec1 \<and>
         \<not> isInSection (position u) a Sec2) \<or>
      (\<not> isInSection (position u) a Sec0 \<and> \<not> isInSection (position u) a Sec1 \<and>
         isInSection (position u) a Sec2)"
    using assms grid_trichotomy onGrid_position by blast
  have part: "mset (getSectionCubes s a Sec0) + mset (getSectionCubes s a Sec1) +
           mset (getSectionCubes s a Sec2) = mset (children s)"
    unfolding getSectionCubes_def by (rule mset_three_filters [OF tri])
  have un: "set (getSectionCubes s a Sec0) \<union> set (getSectionCubes s a Sec1) \<union>
           set (getSectionCubes s a Sec2) = set (children s)"
    using tri by (auto simp: getSectionCubes_def)
  have disj: "set (getSectionCubes s a Sec0) \<inter> set (getSectionCubes s a Sec1) = {}"
    "set (getSectionCubes s a Sec0) \<inter> set (getSectionCubes s a Sec2) = {}"
    "set (getSectionCubes s a Sec1) \<inter> set (getSectionCubes s a Sec2) = {}"
    unfolding getSectionCubes_def using sections_exclusive [of _ a] by fastforce+
  show ?thesis
    using section_count [OF assms] part un disj onGrid_distinct [OF assms]
      onGrid_length [OF assms]
    by simp
qed

theorem getSectionCubes_partition_witness:
  "onGrid (children initialState) \<and>
   length (getSectionCubes initialState Y Sec1) = 9 \<and>
   mset (getSectionCubes initialState Y Sec0) + mset (getSectionCubes initialState Y Sec1) +
     mset (getSectionCubes initialState Y Sec2) = mset (children initialState) \<and>
   length (children initialState) = 27"
proof -
  have g: "onGrid (children initialState)"
    by (simp add: initialState_def initCube_onGrid)
  show ?thesis
    using g getSectionCubes_partition [OF g, of Y Sec1] by simp
qed

section \<open>The drag threshold\<close>

text \<open>
  Claim C4, as the code has it. A pointer move is a no-op as soon as one of
  \<open>|deltaX|\<close>, \<open>|deltaY|\<close> is below 10 pixels (the guard is a disjunction). In an
  unresolved drag session on a face of the bounding box, a move with both \<open>|deltaX|\<close>
  and \<open>|deltaY|\<close> at least 10 pixels resolves the session: the grabbed face is the
  non-zero component of the normal, the axis is chosen by the dominant screen delta,
  the section is the one of the hit point along that axis, and the angle starts at 0.
\<close>

theorem onMouseMove_threshold:
  "(dragStartX s = Some startX \<and> dragStartY s = Some startY \<and>
    (jlt (jabs (jsub (Fin (clientX event)) startX)) (Fin 10) \<or>
     jlt (jabs (jsub (Fin (clientY event)) startY)) (Fin 10)) \<longrightarrow>
      onMouseMove w event s = Inr s) \<and>
   (isDragging s \<and> initialIntersect s = Some hit \<and> normal hit = Some (faceNormal face k) \<and>
    k \<noteq> 0 \<and> dragStartX s = Some startX \<and> dragStartY s = Some startY \<and>
    rotationAxis s = None \<and>
    deltaX = jsub (Fin (clientX event)) startX \<and> deltaY = jsub (Fin (clientY event)) startY \<and>
    jge (jabs deltaX) (Fin 10) \<and> jge (jabs deltaY) (Fin 10) \<and>
    a = dragAxis face (jgt (jabs deltaX) (jabs deltaY)) \<longrightarrow>
      onMouseMove w event s =
        Inr (s\<lparr>selectedFace := Some face, rotationAxis := Some a,
               rotationSection := Some (getSection (component (point hit) a)),
               rotationAngle := Some (Fin 0)\<rparr>))"
proof (intro conjI impI)
  assume "dragStartX s = Some startX \<and> dragStartY s = Some startY \<and>
    (jlt (jabs (jsub (Fin (clientX event)) startX)) (Fin 10) \<or>
     jlt (jabs (jsub (Fin (clientY event)) startY)) (Fin 10))"
  then show "onMouseMove w event s = Inr s"
    by (auto simp: onMouseMove_def Let_def split: bool.splits option.splits)
next
  assume h: "isDragging s \<and> initialIntersect s = Some hit \<and>
    normal hit = Some (faceNormal face k) \<and>
    k \<noteq> 0 \<and> dragStartX s = Some startX \<and> dragStartY s = Some startY \<and>
    rotationAxis s = None \<and>
    deltaX = jsub (Fin (clientX event)) startX \<and> deltaY = jsub (Fin (clientY event)) startY \<and>
    jge (jabs deltaX) (Fin 10) \<and> jge (jabs deltaY) (Fin 10) \<and>
    a = dragAxis face (jgt (jabs deltaX) (jabs deltaY))"
  have nlt: "jge u (Fin 10) \<Longrightarrow> \<not> jlt u (Fin 10)" for u
    by (cases u) auto
  from h have g: "\<not> jlt (jabs (jsub (Fin (clientX event)) startX)) (Fin 10)"
    "\<not> jlt (jabs (jsub (Fin (clientY event)) startY)) (Fin 10)"
    using nlt by blast+
  from h g show "onMouseMove w event s =
        Inr (s\<lparr>selectedFace := Some face, rotationAxis := Some a,
               rotationSection := Some (getSection (component (point hit) a)),
               rotationAngle := Some (Fin 0)\<rparr>)"
    by (cases face)
       (simp_all add: onMouseMove_def resolveAxis_def faceNormal_def dragAxis_def vec_def
          del: jge.simps jsub.simps)
qed

text \<open>
  A session primed at \<open>(100, 100)\<close> on the \<open>+x\<close> face: a move to \<open>(105, 150)\<close> is a
  no-op, a move to \<open>(150, 130)\<close> resolves the axis \<open>y\<close> and the middle section.
\<close>

theorem onMouseMove_threshold_witness:
  "onMouseMove \<lparr>innerWidth = 800, innerHeight = 600\<rparr> \<lparr>clientX = 105, clientY = 150\<rparr>
     (onMouseDown
       [\<lparr>point = vec (Fin (3 / 2)) (Fin 0) (Fin 0),
         normal = Some (vec (Fin 1) (Fin 0) (Fin 0))\<rparr>]
       \<lparr>clientX = 100, clientY = 100\<rparr> initialState) =
   Inr (onMouseDown
       [\<lparr>point = vec (Fin (3 / 2)) (Fin 0) (Fin 0),
         normal = Some (vec (Fin 1) (Fin 0) (Fin 0))\<rparr>]
       \<lparr>clientX = 100, clientY = 100\<rparr> initialState) \<and>
   onMouseMove \<lparr>innerWidth = 800, innerHeight = 600\<rparr> \<lparr>clientX = 150, clientY = 130\<rparr>
     (onMouseDown
       [\<lparr>point = vec (Fin (3 / 2)) (Fin 0) (Fin 0),
         normal = Some (vec (Fin 1) (Fin 0) (Fin 0))\<rparr>]
       \<lparr>clientX = 100, clientY = 100\<rparr> initialState) =
   Inr ((onMouseDown
       [\<lparr>point = vec (Fin (3 / 2)) (Fin 0) (Fin 0),
         normal = Some (vec (Fin 1) (Fin 0) (Fin 0))\<rparr>]
       \<lparr>clientX = 100, clientY = 100\<rparr> initialState)
        \<lparr>selectedFace := Some X, rotationAxis := Some Y, rotationSection := Some Sec1,
          rotationAngle := Some (Fin 0)\<rparr>)"
  using
    onMouseMove_threshold [where s = "onMouseDown
       [\<lparr>point = vec (Fin (3 / 2)) (Fin 0) (Fin 0),
         normal = Some (vec (Fin 1) (Fin 0) (Fin 0))\<rparr>]
       \<lparr>clientX = 100, clientY = 100\<rparr> initialState"
      and startX = "Fin 100" and startY = "Fin 100"
      and event = "\<lparr>clientX = 105, clientY = 150\<rparr>"
      and w = "\<lparr>innerWidth = 800, innerHeight = 600\<rparr>"]
    onMouseMove_threshold [where s = "onMouseDown
       [\<lparr>point = vec (Fin (3 / 2)) (Fin 0) (Fin 0),
         normal = Some (vec (Fin 1) (Fin 0) (Fin 0))\<rparr>]
       \<lparr>clientX = 100, clientY = 100\<rparr> initialState"
      and startX = "Fin 100" and startY = "Fin 100"
      and event = "\<lparr>clientX = 150, clientY = 130\<rparr>"
      and w = "\<lparr>innerWidth = 800, innerHeight = 600\<rparr>"
      and hit = "\<lparr>point = vec (Fin (3 / 2)) (Fin 0) (Fin 0),
         normal = Some (vec (Fin 1) (Fin 0) (Fin 0))\<rparr>"
      and face = X and k = 1 and deltaX = "Fin 50" and deltaY = "Fin 30" and a = Y]
  by (simp add: onMouseDown_def initialState_def faceNormal_def dragAxis_def getSection_def
        vec_def)

text \<open>
  The claim as stated fails: in the same session a purely horizontal move of 50 pixels
  reaches the threshold in \<open>deltaX\<close>, and the move is still a no-op with the axis
  unresolved.
\<close>

theorem onMouseMove_threshold_counterexample:
  "jge (jabs (Fin (150 - 100))) (Fin 10) \<and>
   rotationAxis (onMouseDown
       [\<lparr>point = vec (Fin (3 / 2)) (Fin 0) (Fin 0),
         normal = Some (vec (Fin 1) (Fin 0) (Fin 0))\<rparr>]
       \<lparr>clientX = 100, clientY = 100\<rparr> initialState) = None \<and>
   onMouseMove \<lparr>innerWidth = 800, innerHeight = 600\<rparr> \<lparr>clientX = 150, clientY = 100\<rparr>
     (onMouseDown
       [\<lparr>point = vec (Fin (3 / 2)) (Fin 0) (Fin 0),
         normal = Some (vec (Fin 1) (Fin 0) (Fin 0))\<rparr>]
       \<lparr>clientX = 100, clientY = 100\<rparr> initialState) =
   Inr (onMouseDown
       [\<lparr>point = vec (Fin (3 / 2)) (Fin 0) (Fin 0),
         normal = Some (vec (Fin 1) (Fin 0) (Fin 0))\<rparr>]
       \<lparr>clientX = 100, clientY = 100\<rparr> initialState)"
  by (simp add: onMouseMove_def onMouseDown_def initialState_def Let_def)

section \<open>Zero-duration animations\<close>




section \<open>The re-entrancy guard of the whole-cube rotation\<close>

text \<open>
  Claim C6 on a run of the engine. The page starts a shuffle; the user presses \<open>a\<close>,
  which starts a whole-cube rotation and sets the guard. In the frame half a second
  after the start of the shuffle, the shuffle's layer animation completes, clears the
  guard and chains the next turn; the whole-cube animation, 0.3 s old, runs in the same
  frame and registers itself again. A second press of \<open>a\<close> then finds the guard
  cleared and registers a second whole-cube animation next to the first.
\<close>

theorem rotateCube_guard_released:
  "isRotating (onKeyboardRotation ''a'' (shuffle 25 (0, 0, 0) initialState)) \<and>
   \<not> isRotating (tick (3 / 10) (0, 0, 0) (tick (1 / 2) (0, 0, 0)
        (onKeyboardRotation ''a'' (shuffle 25 (0, 0, 0) initialState)))) \<and>
   filter isCubeAnimation (pending (tick (3 / 10) (0, 0, 0) (tick (1 / 2) (0, 0, 0)
        (onKeyboardRotation ''a'' (shuffle 25 (0, 0, 0) initialState))))) =
     [CubeAnimation Y (Fin (pi / 2)) (Val (Fin 500))] \<and>
   filter isCubeAnimation (pending (onKeyboardRotation ''a''
        (tick (3 / 10) (0, 0, 0) (tick (1 / 2) (0, 0, 0)
        (onKeyboardRotation ''a'' (shuffle 25 (0, 0, 0) initialState)))))) =
     [CubeAnimation Y (Fin (pi / 2)) (Val (Fin 500)), CubeAnimation Y (Fin (pi / 2)) (Val (Fin 500))]"
  by (simp add: onKeyboardRotation_def shuffle_def shuffleTurn_def rotate'_def
        animateSectionRotation_def rotateCube_def animateCubeRotation_def tick_def
        initialState_def progressOf_def targetAngleOf_def pickAxis_def pickSection_def
        pickDirection_def Let_def)

section \<open>Snapping\<close>

text \<open>
  Claim C7. For every real angle \<open>a\<close>, \<open>nearestClampDistance\<close> returns \<open>c - a\<close> for
  the clamp \<open>c\<close> among \<open>-pi/2, 0, pi/2\<close> that is nearest to \<open>a\<close>, the first listed one
  on a tie; so \<open>0.1\<close> gives \<open>-0.1\<close> and \<open>1.4\<close> gives \<open>pi/2 - 1.4\<close>.
\<close>

theorem nearestClampDistance_nearest:
  "map_option (\<lambda>c. Fin (c - a)) (nearestIn a [- pi / 2, 0, pi / 2]) =
     Some (nearestClampDistance (Fin a)) \<and>
   nearestClampDistance (Fin (1 / 10)) = Fin (- (1 / 10)) \<and>
   nearestClampDistance (Fin (14 / 10)) = Fin (pi / 2 - 14 / 10)"
  using pi_half_bounds
  by (auto simp add: nearestClampDistance_def nearestClampDistanceOf_def defaultClamps_def
        nearestIn_def Let_def abs_if intro: exI [of _ "pi / 2"])

section \<open>Usage errors\<close>

text \<open>
  Claim C8. When the selected face equals the rotation axis, \<open>getRotationAngle\<close>
  throws, and \<open>setRotation\<close>, which calls it before it rotates anything, throws with
  the state untouched. When there is no session angle, \<open>setRotation\<close> throws at once,
  again with the state untouched.
\<close>

theorem usage_errors_fail_fast:
  "(selectedFace s = rotationAxis s \<longrightarrow>
      getRotationAngle w s deltaX deltaY = Inl SameFaceAndAxis \<and>
      (rotationAngle s \<noteq> None \<longrightarrow>
         setRotation w a sec deltaX deltaY s = Inl (SameFaceAndAxis, s))) \<and>
   (rotationAngle s = None \<longrightarrow>
      setRotation w a sec deltaX deltaY s = Inl (RotationAngleNotSet, s))"
  by (auto simp: getRotationAngle_def setRotation_def)

theorem usage_errors_fail_fast_witness:
  "getRotationAngle \<lparr>innerWidth = 800, innerHeight = 600\<rparr>
     (initialState\<lparr>selectedFace := Some X, rotationAxis := Some X,
                   rotationAngle := Some (Fin 0)\<rparr>) (Fin 50) (Fin 30) =
     Inl SameFaceAndAxis \<and>
   setRotation \<lparr>innerWidth = 800, innerHeight = 600\<rparr> X Sec1 (Fin 50) (Fin 30)
     (initialState\<lparr>selectedFace := Some X, rotationAxis := Some X,
                   rotationAngle := Some (Fin 0)\<rparr>) =
     Inl (SameFaceAndAxis,
          initialState\<lparr>selectedFace := Some X, rotationAxis := Some X,
                       rotationAngle := Some (Fin 0)\<rparr>) \<and>
   setRotation \<lparr>innerWidth = 800, innerHeight = 600\<rparr> Y Sec1 (Fin 50) (Fin 30)
     (initialState\<lparr>selectedFace := Some X, rotationAxis := Some Y\<rparr>) =
     Inl (RotationAngleNotSet, initialState\<lparr>selectedFace := Some X, rotationAxis := Some Y\<rparr>)"
  using
    usage_errors_fail_fast [of "initialState\<lparr>selectedFace := Some X, rotationAxis := Some X,
        rotationAngle := Some (Fin 0)\<rparr>" "\<lparr>innerWidth = 800, innerHeight = 600\<rparr>"
        "Fin 50" "Fin 30" X Sec1]
    usage_errors_fail_fast [of "initialState\<lparr>selectedFace := Some X, rotationAxis := Some Y\<rparr>"
        "\<lparr>innerWidth = 800, innerHeight = 600\<rparr>" "Fin 50" "Fin 30" Y Sec1]
  by (simp add: initialState_def)

section \<open>Completion of a layer animation\<close>

text \<open>
  Claim C9. When the closure of a layer animation runs with a progress that is not
  below 1, it sets \<open>isRotating\<close> to false and \<open>rotationAngle\<close> to null whatever they
  were (the callback, a further shuffle turn, changes neither), so that a following
  \<open>rotateCube\<close> is no longer held back and registers a whole-cube animation.
  \<open>rotate\<close> itself leaves \<open>isRotating\<close> as it was.
\<close>

theorem section_completion_resets_flags:
  "(pending s = SectionAnimation a sec targetAngle duration cb # rest \<and>
    \<not> jlt (progressOf elapsedTime duration) (Fin 1) \<longrightarrow>
      isRotating (tick elapsedTime rnd s) = False \<and>
      rotationAngle (tick elapsedTime rnd s) = None \<and>
      pending (rotateCube a' d' duration' (tick elapsedTime rnd s)) =
        pending (tick elapsedTime rnd s) @ [CubeAnimation a' (targetAngleOf d') duration']) \<and>
   isRotating (rotate' a sec d duration cb s) = isRotating s"
  by (simp add: tick_def Let_def rotate'_def animateSectionRotation_def rotateCube_def
        animateCubeRotation_def)

text \<open>
  A layer rotation is requested, then a whole-cube rotation, which sets the guard;
  the layer animation completes first.
\<close>

theorem section_completion_resets_flags_witness:
  "pending (rotateCube Y Clockwise (Val (Fin 500))
       (rotate' X Sec0 Clockwise (Val (Fin 500)) NoCallback initialState)) =
     [SectionAnimation X Sec0 (Fin (pi / 2)) (Val (Fin 500)) NoCallback,
      CubeAnimation Y (Fin (pi / 2)) (Val (Fin 500))] \<and>
   isRotating (rotateCube Y Clockwise (Val (Fin 500))
       (rotate' X Sec0 Clockwise (Val (Fin 500)) NoCallback initialState)) \<and>
   \<not> jlt (progressOf (1 / 2) (Val (Fin 500))) (Fin 1) \<and>
   isRotating (tick (1 / 2) (0, 0, 0) (rotateCube Y Clockwise (Val (Fin 500))
       (rotate' X Sec0 Clockwise (Val (Fin 500)) NoCallback initialState))) = False \<and>
   rotationAngle (tick (1 / 2) (0, 0, 0) (rotateCube Y Clockwise (Val (Fin 500))
       (rotate' X Sec0 Clockwise (Val (Fin 500)) NoCallback initialState))) = None"
  using section_completion_resets_flags
    [of "rotateCube Y Clockwise (Val (Fin 500))
           (rotate' X Sec0 Clockwise (Val (Fin 500)) NoCallback initialState)"
        X Sec0 "Fin (pi / 2)" "Val (Fin 500)" NoCallback "[CubeAnimation Y (Fin (pi / 2)) (Val (Fin 500))]"
        "1 / 2" "(0, 0, 0)"]
  by (simp add: rotateCube_def animateCubeRotation_def rotate'_def animateSectionRotation_def
        initialState_def targetAngleOf_def progressOf_def)

section \<open>Geometry of a rotating layer\<close>



















subsection \<open>Rotation about a pivot\<close>


declare axisVector.simps [simp del]














subsection \<open>Grid states and their symmetry\<close>





















subsection \<open>Quarter turns keep pieces axis-aligned\<close>










subsection \<open>One rotation step on a turned layer\<close>











subsection \<open>Quarter turns permute the grid\<close>








subsection \<open>Animations run to completion\<close>













subsection \<open>A drag from pointer-down to release\<close>








lemma onMouseMove_resolved:
  assumes "isDragging s" and "initialIntersect s = Some hit"
    and "dragStartX s = Some (Fin sx)" and "dragStartY s = Some (Fin sy)"
    and "rotationAxis s = Some a" and "rotationSection s = Some sec"
    and "rotationAngle s = Some r"
  shows "onMouseMove w event s =
     (if jlt (jabs (Fin (clientX event - sx))) (Fin 10) \<or>
         jlt (jabs (Fin (clientY event - sy))) (Fin 10) then Inr s
      else setRotation w a sec (Fin (clientX event - sx)) (Fin (clientY event - sy)) s)"
  using assms by (simp add: onMouseMove_def Let_def)








subsection \<open>The initial state is a grid state\<close>



declare axisVector.simps [simp]

section \<open>The truthiness guard of the drag angle\<close>

text \<open>
  The guard of \<open>getRotationAngle\<close> on its own: for each of the six valid pairs of grabbed
  face and rotation axis the function throws ``Unable to determine angle'' when the
  screen delta that the pair uses is 0, and when the drag's start coordinate that the
  pair uses is 0, because the guard tests truthiness and 0 is falsy.
\<close>

lemma getRotationAngle_guard:
  "((face, a) \<in> {(X, Y), (Y, Z), (Z, Y)} \<and> selectedFace s = Some face \<and>
    rotationAxis s = Some a \<and> (deltaX = Fin 0 \<or> dragStartX s = Some (Fin 0)) \<longrightarrow>
      getRotationAngle w s deltaX deltaY = Inl UnableToDetermineAngle) \<and>
   ((face, a) \<in> {(X, Z), (Y, X), (Z, X)} \<and> selectedFace s = Some face \<and>
    rotationAxis s = Some a \<and> (deltaY = Fin 0 \<or> dragStartY s = Some (Fin 0)) \<longrightarrow>
      getRotationAngle w s deltaX deltaY = Inl UnableToDetermineAngle)"
  by (auto simp: getRotationAngle_def Let_def)


text \<open>
  What reaches the guard in a drag. A resolved session keeps its face, its axis and its
  start coordinates over every further move, whether the handler returns or throws.
\<close>

lemma resolvedSession_start:
  assumes "idle s" and "normal hit = Some (faceNormal face k)" and "k \<noteq> 0"
    and "10 \<le> \<bar>clientX e1 - clientX e0\<bar>" and "10 \<le> \<bar>clientY e1 - clientY e0\<bar>"
  shows "resolvedSession face (\<bar>clientY e1 - clientY e0\<bar> < \<bar>clientX e1 - clientX e0\<bar>)
           (clientX e0) (clientY e0) (afterMove w1 e1 (onMouseDown (hit # hits) e0 s))"
  using assms
  by (cases face)
     (simp_all add: afterMove_def onMouseMove_def onMouseDown_def idle_def resolveAxis_def
        faceNormal_def dragAxis_def Let_def vec_def resolvedSession_def)

lemma resolvedSession_afterMove:
  assumes r: "resolvedSession face h x0 y0 s"
  shows "resolvedSession face h x0 y0 (afterMove w e s)"
proof -
  from r obtain hit sec cur where dr: "isDragging s" and hit: "initialIntersect s = Some hit"
    and sx: "dragStartX s = Some (Fin x0)" and sy: "dragStartY s = Some (Fin y0)"
    and ax: "rotationAxis s = Some (dragAxis face h)" and se: "rotationSection s = Some sec"
    and an: "rotationAngle s = Some cur"
    by (auto simp: resolvedSession_def)
  note mv = onMouseMove_resolved [OF dr hit sx sy ax se an, of w e]
  show ?thesis
  proof (cases "getRotationAngle w s (Fin (clientX e - x0)) (Fin (clientY e - y0))")
    case (Inl err)
    then show ?thesis using r by (simp add: afterMove_def mv setRotation_def an)
  next
    case (Inr angle)
    then show ?thesis using r
      by (simp add: afterMove_def mv setRotation_def an resolvedSession_def Let_def)
  qed
qed

lemma resolvedSession_dragMoves:
  "resolvedSession face h x0 y0 s \<Longrightarrow> resolvedSession face h x0 y0 (dragMoves ms s)"
proof (induction ms arbitrary: s)
  case Nil
  then show ?case by simp
next
  case (Cons m ms)
  obtain w e where m: "m = (w, e)" by (cases m)
  from Cons.prems have "resolvedSession face h x0 y0 (afterMove w e s)"
    by (rule resolvedSession_afterMove)
  then show ?case unfolding m by (simp add: Cons.IH)
qed

lemma resolvedSession_angle:
  assumes r: "resolvedSession face h x0 y0 s" and dx: "dx \<noteq> 0" and dy: "dy \<noteq> 0"
  shows "if startMissing h x0 y0 w
         then getRotationAngle w s (Fin dx) (Fin dy) = Inl UnableToDetermineAngle
         else \<not> isl (getRotationAngle w s (Fin dx) (Fin dy))"
  using r dx dy
  by (cases face; cases h)
     (simp_all add: getRotationAngle_def dragAxis_def Let_def resolvedSession_def
        startMissing_def del: jmin.simps jmax.simps jdiv.simps jmul.simps)

lemma resolvedSession_move:
  assumes r: "resolvedSession face h x0 y0 s"
  shows "(\<bar>clientX e - x0\<bar> < 10 \<or> \<bar>clientY e - y0\<bar> < 10 \<longrightarrow> onMouseMove w e s = Inr s) \<and>
         (10 \<le> \<bar>clientX e - x0\<bar> \<and> 10 \<le> \<bar>clientY e - y0\<bar> \<longrightarrow>
            (if startMissing h x0 y0 w
             then getRotationAngle w s (Fin (clientX e - x0)) (Fin (clientY e - y0)) =
                    Inl UnableToDetermineAngle \<and>
                  onMouseMove w e s = Inl (UnableToDetermineAngle, s)
             else \<not> isl (getRotationAngle w s (Fin (clientX e - x0)) (Fin (clientY e - y0))) \<and>
                  \<not> isl (onMouseMove w e s)))"
proof -
  from r obtain hit sec cur where dr: "isDragging s" and hit: "initialIntersect s = Some hit"
    and sx: "dragStartX s = Some (Fin x0)" and sy: "dragStartY s = Some (Fin y0)"
    and ax: "rotationAxis s = Some (dragAxis face h)" and se: "rotationSection s = Some sec"
    and an: "rotationAngle s = Some cur"
    by (auto simp: resolvedSession_def)
  note mv = onMouseMove_resolved [OF dr hit sx sy ax se an, of w e]
  have small: "\<bar>clientX e - x0\<bar> < 10 \<or> \<bar>clientY e - y0\<bar> < 10 \<longrightarrow> onMouseMove w e s = Inr s"
    by (auto simp: mv)
  have big: "if startMissing h x0 y0 w
             then getRotationAngle w s (Fin (clientX e - x0)) (Fin (clientY e - y0)) =
                    Inl UnableToDetermineAngle \<and>
                  onMouseMove w e s = Inl (UnableToDetermineAngle, s)
             else \<not> isl (getRotationAngle w s (Fin (clientX e - x0)) (Fin (clientY e - y0))) \<and>
                  \<not> isl (onMouseMove w e s)"
    if b: "10 \<le> \<bar>clientX e - x0\<bar>" "10 \<le> \<bar>clientY e - y0\<bar>"
  proof -
    from b have nz: "clientX e - x0 \<noteq> 0" "clientY e - y0 \<noteq> 0" by auto
    from b have m: "onMouseMove w e s =
        setRotation w (dragAxis face h) sec (Fin (clientX e - x0)) (Fin (clientY e - y0)) s"
      by (simp add: mv)
    note g = resolvedSession_angle [OF r nz, of w]
    show ?thesis
    proof (cases "startMissing h x0 y0 w")
      case True
      with g have "getRotationAngle w s (Fin (clientX e - x0)) (Fin (clientY e - y0)) =
                    Inl UnableToDetermineAngle" by simp
      then show ?thesis using True by (simp add: m setRotation_def an)
    next
      case False
      with g have n: "\<not> isl (getRotationAngle w s (Fin (clientX e - x0)) (Fin (clientY e - y0)))"
        by simp
      then obtain angle where
        "getRotationAngle w s (Fin (clientX e - x0)) (Fin (clientY e - y0)) = Inr angle"
        by (cases "getRotationAngle w s (Fin (clientX e - x0)) (Fin (clientY e - y0))") simp_all
      then show ?thesis using False by (simp add: m setRotation_def an Let_def)
    qed
  qed
  from small big show ?thesis by blast
qed


text \<open>
  Claim C10, as the code has it, on a drag: the pointer goes down on a face of the
  bounding box of an idle engine, a first move with both deltas at 10 pixels or more
  resolves the axis, and any further moves follow. In the session \<open>d\<close> so reached the
  face and the axis are a valid pair, and for the next move
  \<^item> with a delta below 10 pixels (a delta of exactly 0 included) \<open>onMouseMove\<close> returns
    before it calls \<open>getRotationAngle\<close>: nothing is thrown and nothing changes;
  \<^item> with both deltas at 10 pixels or more, \<open>getRotationAngle\<close> throws ``Unable to
    determine angle'', and \<open>onMouseMove\<close> with it, leaving the state as it was, exactly
    when the start coordinate of the session is 0 (\<open>clientX\<close> of the pointer-down for a
    session resolved by a dominantly horizontal move, \<open>clientY\<close> otherwise) or the
    window extent in that direction is 0; otherwise neither throws.
\<close>

theorem drag_unable_to_determine_angle:
  "idle s \<and> normal hit = Some (faceNormal face k) \<and> k \<noteq> 0 \<and>
   10 \<le> \<bar>clientX e1 - clientX e0\<bar> \<and> 10 \<le> \<bar>clientY e1 - clientY e0\<bar> \<and>
   horizontal = (\<bar>clientY e1 - clientY e0\<bar> < \<bar>clientX e1 - clientX e0\<bar>) \<and>
   d = dragMoves ((w1, e1) # ms) (onMouseDown (hit # hits) e0 s) \<longrightarrow>
     selectedFace d = Some face \<and> rotationAxis d = Some (dragAxis face horizontal) \<and>
     (\<bar>clientX e - clientX e0\<bar> < 10 \<or> \<bar>clientY e - clientY e0\<bar> < 10 \<longrightarrow>
        onMouseMove w e d = Inr d) \<and>
     (10 \<le> \<bar>clientX e - clientX e0\<bar> \<and> 10 \<le> \<bar>clientY e - clientY e0\<bar> \<longrightarrow>
        (if (if horizontal then clientX e0 = 0 \<or> innerWidth w = 0
             else clientY e0 = 0 \<or> innerHeight w = 0)
         then getRotationAngle w d (Fin (clientX e - clientX e0)) (Fin (clientY e - clientY e0)) =
                Inl UnableToDetermineAngle \<and>
              onMouseMove w e d = Inl (UnableToDetermineAngle, d)
         else \<not> isl (getRotationAngle w d (Fin (clientX e - clientX e0))
                       (Fin (clientY e - clientY e0))) \<and>
              \<not> isl (onMouseMove w e d)))"
proof (intro impI, elim conjE)
  assume i: "idle s" and n: "normal hit = Some (faceNormal face k)" and k: "k \<noteq> 0"
    and b1: "10 \<le> \<bar>clientX e1 - clientX e0\<bar>" and b2: "10 \<le> \<bar>clientY e1 - clientY e0\<bar>"
    and h: "horizontal = (\<bar>clientY e1 - clientY e0\<bar> < \<bar>clientX e1 - clientX e0\<bar>)"
    and d: "d = dragMoves ((w1, e1) # ms) (onMouseDown (hit # hits) e0 s)"
  have "resolvedSession face horizontal (clientX e0) (clientY e0)
          (afterMove w1 e1 (onMouseDown (hit # hits) e0 s))"
    unfolding h using i n k b1 b2 by (rule resolvedSession_start)
  then have r: "resolvedSession face horizontal (clientX e0) (clientY e0) d"
    unfolding d by (simp add: resolvedSession_dragMoves)
  from r have f: "selectedFace d = Some face \<and> rotationAxis d = Some (dragAxis face horizontal)"
    by (simp add: resolvedSession_def)
  from resolvedSession_move [OF r, of e w] f
  show "selectedFace d = Some face \<and> rotationAxis d = Some (dragAxis face horizontal) \<and>
     (\<bar>clientX e - clientX e0\<bar> < 10 \<or> \<bar>clientY e - clientY e0\<bar> < 10 \<longrightarrow>
        onMouseMove w e d = Inr d) \<and>
     (10 \<le> \<bar>clientX e - clientX e0\<bar> \<and> 10 \<le> \<bar>clientY e - clientY e0\<bar> \<longrightarrow>
        (if (if horizontal then clientX e0 = 0 \<or> innerWidth w = 0
             else clientY e0 = 0 \<or> innerHeight w = 0)
         then getRotationAngle w d (Fin (clientX e - clientX e0)) (Fin (clientY e - clientY e0)) =
                Inl UnableToDetermineAngle \<and>
              onMouseMove w e d = Inl (UnableToDetermineAngle, d)
         else \<not> isl (getRotationAngle w d (Fin (clientX e - clientX e0))
                       (Fin (clientY e - clientY e0))) \<and>
              \<not> isl (onMouseMove w e d)))"
    unfolding startMissing_def by blast
qed



text \<open>
  On the \<open>+x\<close> face, resolved by a dominantly horizontal move: a drag that began at
  the left edge of the window (\<open>clientX = 0\<close>) throws at its next move; a drag that
  began at \<open>(100, 100)\<close> does not throw at a move to \<open>(300, 200)\<close>, and its move to
  \<open>(105, 150)\<close> is a no-op.
\<close>

theorem drag_unable_to_determine_angle_witness:
  "idle initialState \<and>
   getRotationAngle \<lparr>innerWidth = 800, innerHeight = 600\<rparr>
     (dragMoves [(\<lparr>innerWidth = 800, innerHeight = 600\<rparr>, \<lparr>clientX = 50, clientY = 330\<rparr>)]
        (onMouseDown [\<lparr>point = vec (Fin (3 / 2)) (Fin 0) (Fin 0),
           normal = Some (vec (Fin 1) (Fin 0) (Fin 0))\<rparr>]
           \<lparr>clientX = 0, clientY = 300\<rparr> initialState)) (Fin 120) (Fin 50) = Inl UnableToDetermineAngle \<and>
   onMouseMove \<lparr>innerWidth = 800, innerHeight = 600\<rparr> \<lparr>clientX = 120, clientY = 350\<rparr>
     (dragMoves [(\<lparr>innerWidth = 800, innerHeight = 600\<rparr>, \<lparr>clientX = 50, clientY = 330\<rparr>)]
        (onMouseDown [\<lparr>point = vec (Fin (3 / 2)) (Fin 0) (Fin 0),
           normal = Some (vec (Fin 1) (Fin 0) (Fin 0))\<rparr>]
           \<lparr>clientX = 0, clientY = 300\<rparr> initialState)) =
     Inl (UnableToDetermineAngle,
       (dragMoves [(\<lparr>innerWidth = 800, innerHeight = 600\<rparr>, \<lparr>clientX = 50, clientY = 330\<rparr>)]
        (onMouseDown [\<lparr>point = vec (Fin (3 / 2)) (Fin 0) (Fin 0),
           normal = Some (vec (Fin 1) (Fin 0) (Fin 0))\<rparr>]
           \<lparr>clientX = 0, clientY = 300\<rparr> initialState))) \<and>
   \<not> isl (onMouseMove \<lparr>innerWidth = 800, innerHeight = 600\<rparr> \<lparr>clientX = 300, clientY = 200\<rparr>
     (dragMoves [(\<lparr>innerWidth = 800, innerHeight = 600\<rparr>, \<lparr>clientX = 150, clientY = 130\<rparr>)]
        (onMouseDown [\<lparr>point = vec (Fin (3 / 2)) (Fin 0) (Fin 0),
           normal = Some (vec (Fin 1) (Fin 0) (Fin 0))\<rparr>]
           \<lparr>clientX = 100, clientY = 100\<rparr> initialState))) \<and>
   onMouseMove \<lparr>innerWidth = 800, innerHeight = 600\<rparr> \<lparr>clientX = 105, clientY = 150\<rparr>
     (dragMoves [(\<lparr>innerWidth = 800, innerHeight = 600\<rparr>, \<lparr>clientX = 150, clientY = 130\<rparr>)]
        (onMouseDown [\<lparr>point = vec (Fin (3 / 2)) (Fin 0) (Fin 0),
           normal = Some (vec (Fin 1) (Fin 0) (Fin 0))\<rparr>]
           \<lparr>clientX = 100, clientY = 100\<rparr> initialState)) =
     Inr (dragMoves [(\<lparr>innerWidth = 800, innerHeight = 600\<rparr>, \<lparr>clientX = 150, clientY = 130\<rparr>)]
        (onMouseDown [\<lparr>point = vec (Fin (3 / 2)) (Fin 0) (Fin 0),
           normal = Some (vec (Fin 1) (Fin 0) (Fin 0))\<rparr>]
           \<lparr>clientX = 100, clientY = 100\<rparr> initialState))"
proof -
  have i: "idle initialState" by (simp add: idle_def initialState_def)
  have n: "normal \<lparr>point = vec (Fin (3 / 2)) (Fin 0) (Fin 0),
           normal = Some (vec (Fin 1) (Fin 0) (Fin 0))\<rparr> = Some (faceNormal X 1)"
    by (simp add: faceNormal_def)
  have hA: "idle initialState \<and>
     normal \<lparr>point = vec (Fin (3 / 2)) (Fin 0) (Fin 0),
           normal = Some (vec (Fin 1) (Fin 0) (Fin 0))\<rparr> = Some (faceNormal X 1) \<and> (1::real) \<noteq> 0 \<and>
     10 \<le> \<bar>clientX \<lparr>clientX = 50, clientY = 330\<rparr> - clientX \<lparr>clientX = 0, clientY = 300\<rparr>\<bar> \<and>
     10 \<le> \<bar>clientY \<lparr>clientX = 50, clientY = 330\<rparr> - clientY \<lparr>clientX = 0, clientY = 300\<rparr>\<bar> \<and>
     True = (\<bar>clientY \<lparr>clientX = 50, clientY = 330\<rparr> - clientY \<lparr>clientX = 0, clientY = 300\<rparr>\<bar>
                < \<bar>clientX \<lparr>clientX = 50, clientY = 330\<rparr> - clientX \<lparr>clientX = 0, clientY = 300\<rparr>\<bar>) \<and>
     (dragMoves [(\<lparr>innerWidth = 800, innerHeight = 600\<rparr>, \<lparr>clientX = 50, clientY = 330\<rparr>)]
        (onMouseDown [\<lparr>point = vec (Fin (3 / 2)) (Fin 0) (Fin 0),
           normal = Some (vec (Fin 1) (Fin 0) (Fin 0))\<rparr>]
           \<lparr>clientX = 0, clientY = 300\<rparr> initialState)) =
       dragMoves ((\<lparr>innerWidth = 800, innerHeight = 600\<rparr>, \<lparr>clientX = 50, clientY = 330\<rparr>) # [])
         (onMouseDown (\<lparr>point = vec (Fin (3 / 2)) (Fin 0) (Fin 0),
           normal = Some (vec (Fin 1) (Fin 0) (Fin 0))\<rparr> # []) \<lparr>clientX = 0, clientY = 300\<rparr> initialState)"
    using i n by simp
  have hB: "idle initialState \<and>
     normal \<lparr>point = vec (Fin (3 / 2)) (Fin 0) (Fin 0),
           normal = Some (vec (Fin 1) (Fin 0) (Fin 0))\<rparr> = Some (faceNormal X 1) \<and> (1::real) \<noteq> 0 \<and>
     10 \<le> \<bar>clientX \<lparr>clientX = 150, clientY = 130\<rparr> - clientX \<lparr>clientX = 100, clientY = 100\<rparr>\<bar> \<and>
     10 \<le> \<bar>clientY \<lparr>clientX = 150, clientY = 130\<rparr> - clientY \<lparr>clientX = 100, clientY = 100\<rparr>\<bar> \<and>
     True = (\<bar>clientY \<lparr>clientX = 150, clientY = 130\<rparr> - clientY \<lparr>clientX = 100, clientY = 100\<rparr>\<bar>
                < \<bar>clientX \<lparr>clientX = 150, clientY = 130\<rparr> - clientX \<lparr>clientX = 100, clientY = 100\<rparr>\<bar>) \<and>
     (dragMoves [(\<lparr>innerWidth = 800, innerHeight = 600\<rparr>, \<lparr>clientX = 150, clientY = 130\<rparr>)]
        (onMouseDown [\<lparr>point = vec (Fin (3 / 2)) (Fin 0) (Fin 0),
           normal = Some (vec (Fin 1) (Fin 0) (Fin 0))\<rparr>]
           \<lparr>clientX = 100, clientY = 100\<rparr> initialState)) =
       dragMoves ((\<lparr>innerWidth = 800, innerHeight = 600\<rparr>, \<lparr>clientX = 150, clientY = 130\<rparr>) # [])
         (onMouseDown (\<lparr>point = vec (Fin (3 / 2)) (Fin 0) (Fin 0),
           normal = Some (vec (Fin 1) (Fin 0) (Fin 0))\<rparr> # []) \<lparr>clientX = 100, clientY = 100\<rparr> initialState)"
    using i n by simp
  note tA = drag_unable_to_determine_angle [where e = "\<lparr>clientX = 120, clientY = 350\<rparr>" and w = "\<lparr>innerWidth = 800, innerHeight = 600\<rparr>", THEN mp, OF hA]
  note tB = drag_unable_to_determine_angle [where e = "\<lparr>clientX = 300, clientY = 200\<rparr>" and w = "\<lparr>innerWidth = 800, innerHeight = 600\<rparr>", THEN mp, OF hB]
  note tC = drag_unable_to_determine_angle [where e = "\<lparr>clientX = 105, clientY = 150\<rparr>" and w = "\<lparr>innerWidth = 800, innerHeight = 600\<rparr>", THEN mp, OF hB]
  from tA have a: "getRotationAngle \<lparr>innerWidth = 800, innerHeight = 600\<rparr>
     (dragMoves [(\<lparr>innerWidth = 800, innerHeight = 600\<rparr>, \<lparr>clientX = 50, clientY = 330\<rparr>)]
        (onMouseDown [\<lparr>point = vec (Fin (3 / 2)) (Fin 0) (Fin 0),
           normal = Some (vec (Fin 1) (Fin 0) (Fin 0))\<rparr>]
           \<lparr>clientX = 0, clientY = 300\<rparr> initialState)) (Fin 120) (Fin 50) = Inl UnableToDetermineAngle \<and>
   onMouseMove \<lparr>innerWidth = 800, innerHeight = 600\<rparr> \<lparr>clientX = 120, clientY = 350\<rparr>
     (dragMoves [(\<lparr>innerWidth = 800, innerHeight = 600\<rparr>, \<lparr>clientX = 50, clientY = 330\<rparr>)]
        (onMouseDown [\<lparr>point = vec (Fin (3 / 2)) (Fin 0) (Fin 0),
           normal = Some (vec (Fin 1) (Fin 0) (Fin 0))\<rparr>]
           \<lparr>clientX = 0, clientY = 300\<rparr> initialState)) =
     Inl (UnableToDetermineAngle,
       (dragMoves [(\<lparr>innerWidth = 800, innerHeight = 600\<rparr>, \<lparr>clientX = 50, clientY = 330\<rparr>)]
        (onMouseDown [\<lparr>point = vec (Fin (3 / 2)) (Fin 0) (Fin 0),
           normal = Some (vec (Fin 1) (Fin 0) (Fin 0))\<rparr>]
           \<lparr>clientX = 0, clientY = 300\<rparr> initialState)))"
    by simp
  from tB have b: "\<not> isl (onMouseMove \<lparr>innerWidth = 800, innerHeight = 600\<rparr> \<lparr>clientX = 300, clientY = 200\<rparr>
     (dragMoves [(\<lparr>innerWidth = 800, innerHeight = 600\<rparr>, \<lparr>clientX = 150, clientY = 130\<rparr>)]
        (onMouseDown [\<lparr>point = vec (Fin (3 / 2)) (Fin 0) (Fin 0),
           normal = Some (vec (Fin 1) (Fin 0) (Fin 0))\<rparr>]
           \<lparr>clientX = 100, clientY = 100\<rparr> initialState)))"
    by simp
  from tC have c: "onMouseMove \<lparr>innerWidth = 800, innerHeight = 600\<rparr> \<lparr>clientX = 105, clientY = 150\<rparr>
     (dragMoves [(\<lparr>innerWidth = 800, innerHeight = 600\<rparr>, \<lparr>clientX = 150, clientY = 130\<rparr>)]
        (onMouseDown [\<lparr>point = vec (Fin (3 / 2)) (Fin 0) (Fin 0),
           normal = Some (vec (Fin 1) (Fin 0) (Fin 0))\<rparr>]
           \<lparr>clientX = 100, clientY = 100\<rparr> initialState)) =
     Inr (dragMoves [(\<lparr>innerWidth = 800, innerHeight = 600\<rparr>, \<lparr>clientX = 150, clientY = 130\<rparr>)]
        (onMouseDown [\<lparr>point = vec (Fin (3 / 2)) (Fin 0) (Fin 0),
           normal = Some (vec (Fin 1) (Fin 0) (Fin 0))\<rparr>]
           \<lparr>clientX = 100, clientY = 100\<rparr> initialState))"
    by simp
  from i a b c show ?thesis by blast
qed


text \<open>
  The claim as stated fails for the screen delta: in the session that began at
  \<open>(100, 100)\<close> on the \<open>+x\<close> face and was resolved to the axis \<open>y\<close>, which uses the
  horizontal delta, the move to \<open>(100, 150)\<close> has the horizontal delta exactly 0, and
  it throws nothing: the handler returns with the state unchanged.
\<close>

theorem drag_zero_delta_counterexample:
  "selectedFace (dragMoves [(\<lparr>innerWidth = 800, innerHeight = 600\<rparr>, \<lparr>clientX = 150, clientY = 130\<rparr>)]
        (onMouseDown [\<lparr>point = vec (Fin (3 / 2)) (Fin 0) (Fin 0),
           normal = Some (vec (Fin 1) (Fin 0) (Fin 0))\<rparr>]
           \<lparr>clientX = 100, clientY = 100\<rparr> initialState)) = Some X \<and>
   rotationAxis (dragMoves [(\<lparr>innerWidth = 800, innerHeight = 600\<rparr>, \<lparr>clientX = 150, clientY = 130\<rparr>)]
        (onMouseDown [\<lparr>point = vec (Fin (3 / 2)) (Fin 0) (Fin 0),
           normal = Some (vec (Fin 1) (Fin 0) (Fin 0))\<rparr>]
           \<lparr>clientX = 100, clientY = 100\<rparr> initialState)) = Some Y \<and>
   dragStartX (dragMoves [(\<lparr>innerWidth = 800, innerHeight = 600\<rparr>, \<lparr>clientX = 150, clientY = 130\<rparr>)]
        (onMouseDown [\<lparr>point = vec (Fin (3 / 2)) (Fin 0) (Fin 0),
           normal = Some (vec (Fin 1) (Fin 0) (Fin 0))\<rparr>]
           \<lparr>clientX = 100, clientY = 100\<rparr> initialState)) = Some (Fin 100) \<and>
   onMouseMove \<lparr>innerWidth = 800, innerHeight = 600\<rparr> \<lparr>clientX = 100, clientY = 150\<rparr>
     (dragMoves [(\<lparr>innerWidth = 800, innerHeight = 600\<rparr>, \<lparr>clientX = 150, clientY = 130\<rparr>)]
        (onMouseDown [\<lparr>point = vec (Fin (3 / 2)) (Fin 0) (Fin 0),
           normal = Some (vec (Fin 1) (Fin 0) (Fin 0))\<rparr>]
           \<lparr>clientX = 100, clientY = 100\<rparr> initialState)) =
     Inr (dragMoves [(\<lparr>innerWidth = 800, innerHeight = 600\<rparr>, \<lparr>clientX = 150, clientY = 130\<rparr>)]
        (onMouseDown [\<lparr>point = vec (Fin (3 / 2)) (Fin 0) (Fin 0),
           normal = Some (vec (Fin 1) (Fin 0) (Fin 0))\<rparr>]
           \<lparr>clientX = 100, clientY = 100\<rparr> initialState))"
  by (simp add: afterMove_def onMouseMove_def onMouseDown_def resolveAxis_def Let_def
        initialState_def vec_def getSection_def)

section \<open>The end-to-end scenario\<close>

text \<open>
  Claim C3, as the code has it. From the initial state, \<open>rotate('y', 1, 'clockwise', 0)\<close>
  completes in its first animation frame, provided that frame reads a positive elapsed
  time: nothing stays registered, the flags are as before, the nine pieces of the middle
  \<open>y\<close> layer have made a quarter turn about the \<open>y\<close> axis (\<open>(x, y, z)\<close> to
  \<open>(z, y, -x)\<close>, the orientation turned with it) and the other eighteen pieces are
  unchanged.
\<close>

theorem rotate_middle_layer_zero_duration:
  "0 < elapsedTime \<longrightarrow>
   tick elapsedTime rnd (rotate' Y Sec1 Clockwise (Val (Fin 0)) NoCallback initialState) =
     initialState\<lparr>children :=
       map (\<lambda>u. if isInSection (position u) Y Sec1 then quarterTurnY u else u) initCube\<rparr> \<and>
   length (filter (\<lambda>u. isInSection (position u) Y Sec1) initCube) = 9 \<and>
   length (filter (\<lambda>u. \<not> isInSection (position u) Y Sec1) initCube) = 18"
proof
  assume e: "0 < elapsedTime"
  have p: "progressOf elapsedTime (Val (Fin 0)) = Fin 1"
    using e by (rule progress_zero_duration)
  have "tick elapsedTime rnd (rotate' Y Sec1 Clockwise (Val (Fin 0)) NoCallback initialState) =
     (applyRotation Y Sec1 (Fin (pi / 2)) initialState)
       \<lparr>isRotating := False, rotationAngle := None\<rparr>"
    by (simp add: tick_def rotate'_def animateSectionRotation_def p easeInOutCubic_one
          targetAngleOf_def Let_def initialState_def)
  then have "tick elapsedTime rnd (rotate' Y Sec1 Clockwise (Val (Fin 0)) NoCallback initialState) =
     initialState\<lparr>children :=
       map (\<lambda>u. if isInSection (position u) Y Sec1 then quarterTurnY u else u) initCube\<rparr>"
    by (simp add: quarter_turn_initial) (simp add: initialState_def)
  moreover have "length (filter (\<lambda>u. isInSection (position u) Y Sec1) initCube) = 9"
    by (simp add: initCube_def vec_def pieceSize_def)
  moreover have "length (filter (\<lambda>u. \<not> isInSection (position u) Y Sec1) initCube) = 18"
    by (simp add: initCube_def vec_def pieceSize_def)
  ultimately show
    "tick elapsedTime rnd (rotate' Y Sec1 Clockwise (Val (Fin 0)) NoCallback initialState) =
       initialState\<lparr>children :=
         map (\<lambda>u. if isInSection (position u) Y Sec1 then quarterTurnY u else u) initCube\<rparr> \<and>
     length (filter (\<lambda>u. isInSection (position u) Y Sec1) initCube) = 9 \<and>
     length (filter (\<lambda>u. \<not> isInSection (position u) Y Sec1) initCube) = 18"
    by simp
qed

theorem rotate_middle_layer_zero_duration_witness:
  "(0::real) < 16 / 1000 \<and>
   tick (16 / 1000) (0, 0, 0) (rotate' Y Sec1 Clockwise (Val (Fin 0)) NoCallback initialState) =
     initialState\<lparr>children :=
       map (\<lambda>u. if isInSection (position u) Y Sec1 then quarterTurnY u else u) initCube\<rparr> \<and>
   map position (filter (\<lambda>u. isInSection (position u) Y Sec1)
     (children (tick (16 / 1000) (0, 0, 0)
        (rotate' Y Sec1 Clockwise (Val (Fin 0)) NoCallback initialState)))) =
     [vec (Fin (- 1)) (Fin 0) (Fin 1), vec (Fin 0) (Fin 0) (Fin 1), vec (Fin 1) (Fin 0) (Fin 1),
      vec (Fin (- 1)) (Fin 0) (Fin 0), vec (Fin 0) (Fin 0) (Fin 0), vec (Fin 1) (Fin 0) (Fin 0),
      vec (Fin (- 1)) (Fin 0) (Fin (- 1)), vec (Fin 0) (Fin 0) (Fin (- 1)),
      vec (Fin 1) (Fin 0) (Fin (- 1))]"
proof -
  have h: "(0::real) < 16 / 1000" by simp
  note t = rotate_middle_layer_zero_duration [of "16 / 1000" "(0, 0, 0)", THEN mp, OF h]
  have "children (initialState\<lparr>children :=
       map (\<lambda>u. if isInSection (position u) Y Sec1 then quarterTurnY u else u) initCube\<rparr>) =
       map (\<lambda>u. if isInSection (position u) Y Sec1 then quarterTurnY u else u) initCube"
    by simp
  moreover have "map position (filter (\<lambda>u. isInSection (position u) Y Sec1)
       (map (\<lambda>u. if isInSection (position u) Y Sec1 then quarterTurnY u else u) initCube)) =
     [vec (Fin (- 1)) (Fin 0) (Fin 1), vec (Fin 0) (Fin 0) (Fin 1), vec (Fin 1) (Fin 0) (Fin 1),
      vec (Fin (- 1)) (Fin 0) (Fin 0), vec (Fin 0) (Fin 0) (Fin 0), vec (Fin 1) (Fin 0) (Fin 0),
      vec (Fin (- 1)) (Fin 0) (Fin (- 1)), vec (Fin 0) (Fin 0) (Fin (- 1)),
      vec (Fin 1) (Fin 0) (Fin (- 1))]"
    by (simp add: initCube_def quarterTurnY_def vec_def pieceSize_def)
  ultimately show ?thesis using h t by (simp only: conj_assoc simp_thms)
qed

text \<open>
  The claim as stated fails when the first frame reads the elapsed time 0: the rotation
  still completes, but the state it leaves is not the quarter-turned one, and no piece
  is left in the middle layer at all.
\<close>

theorem rotate_middle_layer_counterexample:
  "tick 0 (0, 0, 0) (rotate' Y Sec1 Clockwise (Val (Fin 0)) NoCallback initialState) \<noteq>
     initialState\<lparr>children :=
       map (\<lambda>u. if isInSection (position u) Y Sec1 then quarterTurnY u else u) initCube\<rparr> \<and>
   pending (tick 0 (0, 0, 0) (rotate' Y Sec1 Clockwise (Val (Fin 0)) NoCallback initialState)) = [] \<and>
   length (filter (\<lambda>u. isInSection (position u) Y Sec1)
     (children (tick 0 (0, 0, 0)
        (rotate' Y Sec1 Clockwise (Val (Fin 0)) NoCallback initialState)))) = 0"
proof -
  have c: "length (filter (\<lambda>u. isInSection (position u) Y Sec1)
     (children (tick 0 (0, 0, 0)
        (rotate' Y Sec1 Clockwise (Val (Fin 0)) NoCallback initialState)))) = 0"
    by (simp add: zero_elapsed_tick) (simp add: initCube_def pieceSize_def vec_def)
  have q: "length (filter (\<lambda>u. isInSection (position u) Y Sec1)
     (children (initialState\<lparr>children :=
       map (\<lambda>u. if isInSection (position u) Y Sec1 then quarterTurnY u else u) initCube\<rparr>))) = 9"
    by (simp add: initCube_def quarterTurnY_def pieceSize_def vec_def)
  have p: "pending (tick 0 (0, 0, 0)
      (rotate' Y Sec1 Clockwise (Val (Fin 0)) NoCallback initialState)) = []"
    by (simp add: zero_elapsed_tick) (simp add: initialState_def)
  from c q have "tick 0 (0, 0, 0) (rotate' Y Sec1 Clockwise (Val (Fin 0)) NoCallback initialState) \<noteq>
     initialState\<lparr>children :=
       map (\<lambda>u. if isInSection (position u) Y Sec1 then quarterTurnY u else u) initCube\<rparr>"
    by (metis zero_neq_numeral)
  with p c show ?thesis by simp
qed

section \<open>The grid invariant\<close>




end
